theory Spec2Isabelle
  imports Complex_Main
begin

section \<open>Numbers, vectors and the random source\<close>

text \<open>
  JavaScript numbers are modelled as real numbers: the rounding of IEEE doubles and of
  the 32-bit typed arrays is not part of the model, and neither are NaN and the
  infinities (a division by zero has the value HOL gives it; the theorems below that go
  through a division assume or prove that its denominator is not zero).

  \<open>js_rem x y\<close> is the operator \<^verbatim>\<open>x % y\<close>: the remainder of the division
  truncated towards zero, so its sign is the sign of \<open>x\<close>.
\<close>

definition js_trunc :: "real \<Rightarrow> int" where
  "js_trunc x = (if 0 \<le> x then \<lfloor>x\<rfloor> else \<lceil>x\<rceil>)"

definition js_rem :: "real \<Rightarrow> real \<Rightarrow> real" where
  "js_rem x y = x - real_of_int (js_trunc (x / y)) * y"

text \<open>
  \<^verbatim>\<open>Math.random()\<close> is a global source: the model takes the whole sequence of
  its results as a function \<open>rnd\<close> and threads the index of the next draw through
  every function that draws. \<open>random_ok rnd\<close> says what the language promises of
  each result.
\<close>

type_synonym random_source = "nat \<Rightarrow> real"

definition random_ok :: "random_source \<Rightarrow> bool" where
  "random_ok rnd = (\<forall>n. 0 \<le> rnd n \<and> rnd n < 1)"

text \<open>A \<^verbatim>\<open>THREE.Vector3\<close>, and the path object shared by the particles
  (a \<^verbatim>\<open>THREE.CatmullRomCurve3\<close>, of the library: its interpolation is taken
  as the two functions the particles call, with the flag \<^verbatim>\<open>closed\<close>).\<close>

datatype vec3 = Vector3 (vx: real) (vy: real) (vz: real)

definition vadd :: "vec3 \<Rightarrow> vec3 \<Rightarrow> vec3" where
  "vadd a b = Vector3 (vx a + vx b) (vy a + vy b) (vz a + vz b)"

record curve_path =
  path_closed :: bool
  getPointAt :: "real \<Rightarrow> vec3"
  getTangentAt :: "real \<Rightarrow> vec3"

section \<open>Configuration\<close>

text \<open>The object \<^verbatim>\<open>params\<close> of main.js, with the fields the particle engine reads.\<close>

record lifecycle_params =
  enabled :: bool
  fadeInTime :: real
  stableTime :: real
  fadeOutTime :: real
  randomOffset :: real

record glow_params =
  glow_trailLength :: nat
  glow_speedFactor :: real
  glow_boldness :: real
  glow_lineWidth :: real

record weldingSpark_params =
  spark_trailLength :: nat
  spark_speedFactor :: real
  sparkSize :: real
  sparkHeat :: real
  pathFollowing :: real

record comet_params =
  headSize :: real
  comet_tailLength :: nat
  tailWidth :: real
  tailFade :: real
  glowIntensity :: real
  comet_speedFactor :: real
  comet_colorMode :: string
  cometColor :: string

record params =
  numParticles :: nat
  particleScatterRadius :: real
  vivianiA :: real
  lifecycle :: lifecycle_params
  currentTheme :: string
  glow :: glow_params
  weldingSpark :: weldingSpark_params
  comet :: comet_params
  colorMode :: string
  singleColorValue :: string
  paletteColor1 :: string
  paletteColor1Enabled :: bool
  paletteColor2 :: string
  paletteColor2Enabled :: bool
  paletteColor3 :: string
  paletteColor3Enabled :: bool
  paletteColor4 :: string
  paletteColor4Enabled :: bool
  paletteColor5 :: string
  paletteColor5Enabled :: bool

section \<open>Particles: the common state\<close>

text \<open>
  The fields every particle class (GlowParticle, WeldingSpark, Comet) declares in its
  constructor. The three classes extend this record, so a function written for the
  common part applies to each of them, as the manager's method does in the source.
\<close>

record particle =
  path :: curve_path
  currentT :: real
  baseSpeedRandomness :: real
  speed :: real
  lifecycleOffset :: real
  scatterOffset :: vec3

section \<open>ParticleSystem.calculateLifecycleAlpha\<close>

definition lifecyclePos :: "'a particle_scheme \<Rightarrow> real" where
  "lifecyclePos p = js_rem (lifecycleOffset p + currentT p) 1"

definition calculateLifecycleAlpha :: "params \<Rightarrow> 'a particle_scheme \<Rightarrow> real" where
  "calculateLifecycleAlpha ps p =
     (if \<not> enabled (lifecycle ps) then 1
      else
        let fadeInT = fadeInTime (lifecycle ps);
            stableT = stableTime (lifecycle ps);
            fadeOutT = fadeOutTime (lifecycle ps);
            pos = lifecyclePos p;
            alpha =
              (if pos < fadeInT then pos / fadeInT
               else if pos \<ge> fadeInT + stableT then 1 - (pos - fadeInT - stableT) / fadeOutT
               else 1)
        in max 0 (min 1 alpha))"

text \<open>
  The function of section 4.2 of the specification, written from its words: three
  pieces over the lifecycle position, the result clamped to the unit interval.
\<close>

definition spec_lifecycle_alpha :: "real \<Rightarrow> real \<Rightarrow> real \<Rightarrow> real \<Rightarrow> real" where
  "spec_lifecycle_alpha fadeInT stableT fadeOutT pos =
     max 0 (min 1
       (if pos < fadeInT then pos / fadeInT
        else if fadeInT \<le> pos \<and> pos < fadeInT + stableT then 1
        else 1 - (pos - fadeInT - stableT) / fadeOutT))"

text \<open>Concrete inputs: the configuration main.js starts with, and particles at chosen
  lifecycle positions.\<close>

definition default_lifecycle :: lifecycle_params where
  "default_lifecycle =
     \<lparr>enabled = True, fadeInTime = 0.09, stableTime = 0.9, fadeOutTime = 0.2,
      randomOffset = 1\<rparr>"

definition default_params :: params where
  "default_params =
     \<lparr>numParticles = 406, particleScatterRadius = 1.1, vivianiA = 5,
      lifecycle = default_lifecycle,
      currentTheme = ''dark'',
      glow = \<lparr>glow_trailLength = 22, glow_speedFactor = 0.0007, glow_boldness = 1,
              glow_lineWidth = 2\<rparr>,
      weldingSpark = \<lparr>spark_trailLength = 16, spark_speedFactor = 0.006, sparkSize = 0.5,
              sparkHeat = 0.8, pathFollowing = 0.7\<rparr>,
      comet = \<lparr>headSize = 1, comet_tailLength = 20, tailWidth = 0.8, tailFade = 0.8,
              glowIntensity = 0.8, comet_speedFactor = 0.005, comet_colorMode = ''single'',
              cometColor = ''#80ffff''\<rparr>,
      colorMode = ''palette'', singleColorValue = ''#ffffff'',
      paletteColor1 = ''#667fff'', paletteColor1Enabled = True,
      paletteColor2 = ''#734ef9'', paletteColor2Enabled = True,
      paletteColor3 = ''#ffc21a'', paletteColor3Enabled = True,
      paletteColor4 = ''#b39eff'', paletteColor4Enabled = True,
      paletteColor5 = ''#007bff'', paletteColor5Enabled = True\<rparr>"

definition line_path :: "bool \<Rightarrow> curve_path" where
  "line_path c =
     \<lparr>path_closed = c, getPointAt = (\<lambda>t. Vector3 t 0 0),
      getTangentAt = (\<lambda>t. Vector3 1 0 0)\<rparr>"

definition particle_at :: "real \<Rightarrow> real \<Rightarrow> particle" where
  "particle_at off t =
     \<lparr>path = line_path True, currentT = t, baseSpeedRandomness = 1, speed = 0.001,
      lifecycleOffset = off, scatterOffset = Vector3 0 0 0\<rparr>"

section \<open>GlowParticle\<close>

text \<open>
  A typed array is a list of fixed length; \<open>toArray v arr off\<close> is
  \<^verbatim>\<open>v.toArray(arr, off)\<close>, three writes, and a write past the end of a typed
  array is ignored, which is what \<open>list_update\<close> does. \<open>sample arr i\<close> reads the
  \<open>i\<close>-th position of a buffer of positions. A read past the end has no value in the
  model; the theorems assume or prove the lengths that keep every read they depend on
  in range.
\<close>

definition toArray :: "vec3 \<Rightarrow> real list \<Rightarrow> nat \<Rightarrow> real list" where
  "toArray v arr off = arr[off := vx v, off + 1 := vy v, off + 2 := vz v]"

definition sample :: "real list \<Rightarrow> nat \<Rightarrow> vec3" where
  "sample arr i = Vector3 (arr ! (i * 3)) (arr ! (i * 3 + 1)) (arr ! (i * 3 + 2))"

text \<open>\<^verbatim>\<open>((t % 1) + 1) % 1\<close>, the wrap of a curve parameter into [0,1).\<close>

definition wrap01 :: "real \<Rightarrow> real" where
  "wrap01 t = js_rem (js_rem t 1 + 1) 1"

text \<open>The three draws of a scatter offset, in the order the source makes them.\<close>

definition randomScatter :: "random_source \<Rightarrow> nat \<Rightarrow> real \<Rightarrow> vec3" where
  "randomScatter rnd n radius =
     Vector3 ((rnd n - 0.5) * 2 * radius) ((rnd (n + 1) - 0.5) * 2 * radius)
       ((rnd (n + 2) - 0.5) * 2 * radius)"

text \<open>\<^verbatim>\<open>Math.max(1, this.trailLength - 1)\<close>, the denominator of the fade ramp,
  and the weight \<^verbatim>\<open>1.0 - (i / Math.max(1, this.trailLength - 1))\<close>.\<close>

definition fadeDenominator :: "nat \<Rightarrow> real" where
  "fadeDenominator len = max 1 (real len - 1)"

definition fadeWeight :: "nat \<Rightarrow> nat \<Rightarrow> real" where
  "fadeWeight len i = 1 - real i / fadeDenominator len"

text \<open>
  A colour value as the source hands it to \<^verbatim>\<open>THREE.Color\<close>: a hexadecimal
  number, a style string, or hue, saturation and lightness.
\<close>

datatype color_value = ColorHex nat | ColorString string | ColorHSL real real real

text \<open>
  The options object of the constructor, and the particle: the common fields, the
  trail buffers (the arrays of the geometry's attributes \<^verbatim>\<open>position\<close> and
  \<^verbatim>\<open>trailAlphaMultiplier\<close>) and the uniforms of the material. The geometry, the
  mesh and the shader sources are the renderer's and are left out.
\<close>

record glow_options =
  opt_trailLength :: nat
  opt_speedFactor :: real
  opt_boldness :: real
  opt_scatterRadius :: real

record glow_particle = particle +
  trailLength :: nat
  justReset :: bool
  trailPositions :: "real list"
  trailAlphas :: "real list"
  color :: color_value
  uBoldness :: real
  uLifecycleAlpha :: real

definition initTrailStep ::
  "curve_path \<Rightarrow> real \<Rightarrow> vec3 \<Rightarrow> nat \<Rightarrow> nat \<Rightarrow> real list \<times> real list
    \<Rightarrow> real list \<times> real list" where
  "initTrailStep pth t0 sc len i bufs =
     (let t = wrap01 (t0 - real i * 0.001);
          scatteredPos = vadd (getPointAt pth t) sc
      in (toArray scatteredPos (fst bufs) (i * 3), (snd bufs)[i := fadeWeight len i]))"

definition GlowParticle_new ::
  "params \<Rightarrow> random_source \<Rightarrow> nat \<Rightarrow> curve_path \<Rightarrow> glow_options \<Rightarrow> nat \<times> glow_particle" where
  "GlowParticle_new ps rnd n pth opts =
     (let len = opt_trailLength opts;
          t0 = rnd n;
          base = 0.5 + rnd (n + 1) * 1;
          off = rnd (n + 2) * randomOffset (lifecycle ps);
          sc = randomScatter rnd (n + 3) (opt_scatterRadius opts);
          bufs = fold (initTrailStep pth t0 sc len) [0..<len]
                   (replicate (len * 3) 0, replicate len 0);
          alphas = (if len > 0 then (snd bufs)[0 := 1] else snd bufs)
      in (n + 6,
          \<lparr>path = pth, currentT = t0, baseSpeedRandomness = base,
           speed = opt_speedFactor opts * base, lifecycleOffset = off, scatterOffset = sc,
           trailLength = len, justReset = False, trailPositions = fst bufs,
           trailAlphas = alphas, color = ColorHex 0xffffff, uBoldness = opt_boldness opts,
           uLifecycleAlpha = 1\<rparr>))"

text \<open>The three loops of \<^verbatim>\<open>GlowParticle.update\<close>: the teleport of the whole
  trail on a wrap, the shift towards the tail (from the last index down to 1), and the
  fade weights.\<close>

definition teleportTrail :: "vec3 \<Rightarrow> nat \<Rightarrow> real list \<Rightarrow> real list" where
  "teleportTrail startPos len arr = fold (\<lambda>i a. toArray startPos a (i * 3)) [0..<len] arr"

definition shiftStep :: "nat \<Rightarrow> real list \<Rightarrow> real list" where
  "shiftStep i arr =
     (let a1 = arr[i * 3 := arr ! ((i - 1) * 3)];
          a2 = a1[i * 3 + 1 := a1 ! ((i - 1) * 3 + 1)];
          a3 = a2[i * 3 + 2 := a2 ! ((i - 1) * 3 + 2)]
      in a3)"

definition shiftTrail :: "nat \<Rightarrow> real list \<Rightarrow> real list" where
  "shiftTrail len arr = fold shiftStep (rev [1..<len]) arr"

definition recalcAlphas :: "nat \<Rightarrow> real list \<Rightarrow> real list" where
  "recalcAlphas len al =
     (let a1 = fold (\<lambda>i a. a[i := fadeWeight len i]) [0..<len] al;
          a2 = (if len > 0 then a1[0 := 1] else a1);
          a3 = (if len \<le> 1 \<and> length a2 > 0 then a2[0 := 1] else a2)
      in a3)"

definition GlowParticle_update ::
  "params \<Rightarrow> random_source \<Rightarrow> nat \<Rightarrow> glow_particle \<Rightarrow> nat \<times> glow_particle" where
  "GlowParticle_update ps rnd n p =
     (let speed1 = glow_speedFactor (glow ps) * baseSpeedRandomness p;
          p1 = p\<lparr>speed := speed1, currentT := currentT p + speed1\<rparr>;
          (n2, p2) =
            (if currentT p1 \<ge> 1 then
               let sc = randomScatter rnd n (particleScatterRadius ps);
                   startPos = vadd (getPointAt (path p1) 0) sc
               in (n + 3,
                   p1\<lparr>currentT := 0, scatterOffset := sc,
                      justReset := (if \<not> path_closed (path p1) then True else justReset p1),
                      trailPositions := teleportTrail startPos (trailLength p1) (trailPositions p1)\<rparr>)
             else (n, p1));
          newHeadPos = vadd (getPointAt (path p2) (currentT p2)) (scatterOffset p2);
          shifted = shiftTrail (trailLength p2) (trailPositions p2);
          positions1 = toArray newHeadPos shifted 0;
          alphas1 = recalcAlphas (trailLength p2) (trailAlphas p2)
      in (n2, p2\<lparr>trailPositions := positions1, trailAlphas := alphas1\<rparr>))"

section \<open>Comet\<close>

text \<open>
  The options of the constructor, the uniforms of the two materials, one additional
  tail line (its own clone of the tail geometry and of the tail material) and the
  comet. \<^verbatim>\<open>options.tailFade || 0.8\<close> takes 0.8 for a tail fade of zero.
\<close>

record comet_options =
  copt_tailLength :: nat
  copt_headSize :: real
  copt_tailWidth :: real
  copt_tailFade :: real
  copt_glowIntensity :: real
  copt_speedFactor :: real
  copt_scatterRadius :: real
  copt_color :: string

record head_material =
  hm_cometColor :: color_value
  hm_headSize :: real
  hm_glowIntensity :: real
  hm_lifecycleAlpha :: real

record tail_material =
  tm_cometColor :: color_value
  tm_tailWidth :: real
  tm_tailFade :: real
  tm_glowIntensity :: real
  tm_lifecycleAlpha :: real

record wide_tail =
  wt_positions :: "real list"
  wt_tailFades :: "real list"
  wt_material :: tail_material

record comet_particle = particle +
  tailLength :: nat
  headPosition :: "real list"
  tailPositions :: "real list"
  tailFades :: "real list"
  headMaterial :: head_material
  tailMaterial :: tail_material
  wideTailMeshes :: "wide_tail list"

text \<open>The lateral offset of the additional line \<open>i\<close> of \<open>numExtraLines\<close>.\<close>

definition wideOffset :: "nat \<Rightarrow> nat \<Rightarrow> vec3" where
  "wideOffset numExtraLines i =
     (let offset = (real i + 1) * 0.05;
          angle = (real i / real numExtraLines) * pi * 2
      in Vector3 (cos angle * offset) (sin angle * offset) 0)"

definition offsetPositions :: "real \<Rightarrow> real \<Rightarrow> real list \<Rightarrow> real list" where
  "offsetPositions offsetX offsetY arr =
     fold (\<lambda>j a. (a[j := a ! j + offsetX])[j + 1 := (a[j := a ! j + offsetX]) ! (j + 1) + offsetY])
       (map (\<lambda>k. k * 3) [0..<(length arr + 2) div 3]) arr"

definition newWideTail :: "real list \<Rightarrow> real list \<Rightarrow> tail_material \<Rightarrow> nat \<Rightarrow> nat \<Rightarrow> wide_tail" where
  "newWideTail tailPos fades mat numExtraLines i =
     \<lparr>wt_positions = offsetPositions (vx (wideOffset numExtraLines i))
                       (vy (wideOffset numExtraLines i)) tailPos,
      wt_tailFades = fades,
      wt_material = mat\<lparr>tm_glowIntensity :=
        tm_glowIntensity mat * (1 - real i / real numExtraLines * 0.5)\<rparr>\<rparr>"

definition Comet_new ::
  "params \<Rightarrow> random_source \<Rightarrow> nat \<Rightarrow> curve_path \<Rightarrow> comet_options \<Rightarrow> nat \<times> comet_particle" where
  "Comet_new ps rnd n pth opts =
     (let len = copt_tailLength opts;
          t0 = rnd n;
          base = 0.5 + rnd (n + 1) * 1;
          off = rnd (n + 2) * randomOffset (lifecycle ps);
          sc = randomScatter rnd (n + 3) (copt_scatterRadius opts);
          initialPos = vadd (getPointAt pth t0) sc;
          headPos = toArray initialPos (replicate 3 0) 0;
          bufs = fold (\<lambda>i b. (toArray initialPos (fst b) (i * 3), (snd b)[i := fadeWeight len i]))
                   [0..<len] (replicate (len * 3) 0, replicate len 0);
          hm = \<lparr>hm_cometColor = ColorString (copt_color opts), hm_headSize = copt_headSize opts,
                hm_glowIntensity = copt_glowIntensity opts, hm_lifecycleAlpha = 1\<rparr>;
          tm = \<lparr>tm_cometColor = ColorString (copt_color opts), tm_tailWidth = copt_tailWidth opts,
                tm_tailFade = (if copt_tailFade opts = 0 then 0.8 else copt_tailFade opts),
                tm_glowIntensity = copt_glowIntensity opts, tm_lifecycleAlpha = 1\<rparr>;
          numExtraLines = nat \<lfloor>copt_tailWidth opts * 2\<rfloor>;
          wide = map (newWideTail (fst bufs) (snd bufs) tm numExtraLines) [0..<numExtraLines]
      in (n + 6,
          \<lparr>path = pth, currentT = t0, baseSpeedRandomness = base,
           speed = copt_speedFactor opts * base, lifecycleOffset = off, scatterOffset = sc,
           tailLength = len, headPosition = headPos, tailPositions = fst bufs,
           tailFades = snd bufs, headMaterial = hm, tailMaterial = tm,
           wideTailMeshes = wide\<rparr>))"

definition updateTailGeometry :: "comet_particle \<Rightarrow> real list \<Rightarrow> real \<Rightarrow> vec3 \<Rightarrow> real list" where
  "updateTailGeometry c arr tailSegmentLength offsetVector =
     fold (\<lambda>i a.
             let t = wrap01 (currentT c - real i * tailSegmentLength);
                 posOnCurve = vadd (vadd (getPointAt (path c) t) (scatterOffset c)) offsetVector
             in toArray posOnCurve a (i * 3))
       [0..<tailLength c] arr"

definition Comet_update ::
  "params \<Rightarrow> random_source \<Rightarrow> nat \<Rightarrow> comet_particle \<Rightarrow> nat \<times> comet_particle" where
  "Comet_update ps rnd n c =
     (let speed1 = comet_speedFactor (comet ps) * baseSpeedRandomness c;
          c1 = c\<lparr>speed := speed1, currentT := currentT c + speed1\<rparr>;
          (n2, c2) =
            (if currentT c1 \<ge> 1 then
               (n + 3, c1\<lparr>currentT := 0,
                   scatterOffset := randomScatter rnd n (particleScatterRadius ps)\<rparr>)
             else (n, c1));
          headPos = vadd (getPointAt (path c2) (currentT c2)) (scatterOffset c2);
          tailSegmentLength = speed c2 * 0.95;
          numExtraLines = length (wideTailMeshes c2);
          wide = fold (\<lambda>i ws. ws[i := (ws ! i)\<lparr>wt_positions :=
                    updateTailGeometry c2 (wt_positions (ws ! i)) tailSegmentLength
                      (wideOffset numExtraLines i)\<rparr>])
                   [0..<numExtraLines] (wideTailMeshes c2)
      in (n2, c2\<lparr>headPosition := toArray headPos (headPosition c2) 0,
                tailPositions := updateTailGeometry c2 (tailPositions c2) tailSegmentLength
                                   (Vector3 0 0 0),
                wideTailMeshes := wide\<rparr>))"

section \<open>WeldingSpark\<close>

text \<open>
  The methods of \<^verbatim>\<open>THREE.Vector3\<close> the spark emission calls.
  \<^verbatim>\<open>normalize()\<close> divides by the length, or by 1 when the length is zero.
\<close>

definition vlength :: "vec3 \<Rightarrow> real" where
  "vlength v = sqrt (vx v * vx v + vy v * vy v + vz v * vz v)"

definition multiplyScalar :: "vec3 \<Rightarrow> real \<Rightarrow> vec3" where
  "multiplyScalar v k = Vector3 (vx v * k) (vy v * k) (vz v * k)"

definition vnormalize :: "vec3 \<Rightarrow> vec3" where
  "vnormalize v = multiplyScalar v (1 / (if vlength v = 0 then 1 else vlength v))"

definition addScaledVector :: "vec3 \<Rightarrow> vec3 \<Rightarrow> real \<Rightarrow> vec3" where
  "addScaledVector v w k = Vector3 (vx v + vx w * k) (vy v + vy w * k) (vz v + vz w * k)"

text \<open>
  The pool of a welding spark: three typed arrays of fixed length, the array
  \<^verbatim>\<open>velocities\<close> (an ordinary array, which starts empty and has a slot only
  where one was assigned: a partial map from indices), the count of live sparks and
  the draw range of the geometry. Reading \<^verbatim>\<open>.y\<close> of a slot that was never
  assigned raises a TypeError.
\<close>

datatype js_error = TypeError

record spark_options =
  sopt_trailLength :: nat
  sopt_speedFactor :: real
  sopt_sparkSize :: real
  sopt_sparkHeat :: real
  sopt_scatterRadius :: real

record welding_spark = particle +
  maxLife :: nat
  positions :: "real list"
  sizes :: "real list"
  sparkLives :: "real list"
  velocities :: "nat \<rightharpoonup> vec3"
  activeParticles :: nat
  drawRange :: "nat \<times> nat"
  uSparkHeat :: real
  lifecycleAlpha :: real

text \<open>One iteration of the emission loop past its capacity check: five draws, then
  the writes into the slot of index \<open>activeParticles\<close>.\<close>

definition emitOne ::
  "params \<Rightarrow> random_source \<Rightarrow> vec3 \<Rightarrow> vec3 \<Rightarrow> nat \<Rightarrow> welding_spark \<Rightarrow> nat \<times> welding_spark" where
  "emitOne ps rnd origin tangent n s =
     (let tangentInfluence = pathFollowing (weldingSpark ps) * (0.7 + rnd n * 0.3);
          randomInfluence = 1 - tangentInfluence;
          angle = rnd (n + 1) * pi * 2;
          elevation = rnd (n + 2) * pi - pi / 2;
          randomDir = vnormalize (Vector3 (cos angle * cos elevation) (sin elevation)
                                   (sin angle * cos elevation));
          direction = vnormalize (addScaledVector
                        (addScaledVector (Vector3 0 0 0) tangent tangentInfluence)
                        randomDir randomInfluence);
          direction1 = Vector3 (vx direction)
                         (vy direction - 0.2 * (1 - pathFollowing (weldingSpark ps)))
                         (vz direction);
          direction2 = vnormalize direction1;
          speed0 = 0.05 + rnd (n + 3) * 0.15;
          velocity = multiplyScalar direction2 speed0;
          idx = activeParticles s * 3
      in (n + 5,
          s\<lparr>positions := (positions s)[idx := vx origin, idx + 1 := vy origin, idx + 2 := vz origin],
            sizes := (sizes s)[activeParticles s := (0.2 + rnd (n + 4) * 0.8) * sparkSize (weldingSpark ps)],
            sparkLives := (sparkLives s)[activeParticles s := 1],
            velocities := (velocities s)(activeParticles s \<mapsto> velocity),
            activeParticles := activeParticles s + 1\<rparr>))"

text \<open>The emission loop, by the number of iterations left; the first statement of its
  body is the capacity check
  \<^verbatim>\<open>if (this.activeParticles >= this.positions.length / 3) break\<close>.\<close>

definition poolFull :: "welding_spark \<Rightarrow> bool" where
  "poolFull s = (real (activeParticles s) \<ge> real (length (positions s)) / 3)"

fun emitLoop ::
  "params \<Rightarrow> random_source \<Rightarrow> vec3 \<Rightarrow> vec3 \<Rightarrow> nat \<Rightarrow> nat \<times> welding_spark \<Rightarrow> nat \<times> welding_spark" where
  "emitLoop ps rnd origin tangent 0 st = st"
| "emitLoop ps rnd origin tangent (Suc k) st =
     (if poolFull (snd st) then st
      else emitLoop ps rnd origin tangent k (emitOne ps rnd origin tangent (fst st) (snd st)))"

definition emitSparks ::
  "params \<Rightarrow> random_source \<Rightarrow> nat \<Rightarrow> welding_spark \<Rightarrow> nat \<times> welding_spark" where
  "emitSparks ps rnd n s =
     (let posOnCurve = getPointAt (path s) (currentT s);
          origin = vadd posOnCurve (scatterOffset s);
          tangent = vnormalize (getTangentAt (path s) (currentT s));
          numNewSparks = \<lfloor>2 + rnd n * 5\<rfloor>;
          st = emitLoop ps rnd origin tangent (nat numNewSparks) (n + 1, s)
      in (fst st, (snd st)\<lparr>drawRange := (0, activeParticles (snd st))\<rparr>))"

text \<open>The constructor. The draw range a new geometry has is replaced by the call of
  emitSparks that ends the constructor, so the value given here is never seen.\<close>

definition WeldingSpark_new ::
  "params \<Rightarrow> random_source \<Rightarrow> nat \<Rightarrow> curve_path \<Rightarrow> spark_options \<Rightarrow> nat \<times> welding_spark" where
  "WeldingSpark_new ps rnd n pth opts =
     (let t0 = rnd n;
          base = 0.5 + rnd (n + 1) * 1.5;
          off = rnd (n + 2) * randomOffset (lifecycle ps);
          sc = randomScatter rnd (n + 3) (sopt_scatterRadius opts);
          maxParticles = sopt_trailLength opts * 3
      in emitSparks ps rnd (n + 6)
           \<lparr>path = pth, currentT = t0, baseSpeedRandomness = base,
            speed = sopt_speedFactor opts * base, lifecycleOffset = off, scatterOffset = sc,
            maxLife = sopt_trailLength opts,
            positions = replicate (maxParticles * 3) 0,
            sizes = replicate maxParticles 0,
            sparkLives = replicate maxParticles 0,
            velocities = Map.empty, activeParticles = 0, drawRange = (0, 0),
            uSparkHeat = sopt_sparkHeat opts, lifecycleAlpha = 1\<rparr>)"

text \<open>
  The two groups of three statements of the loop of \<^verbatim>\<open>WeldingSpark.update\<close>
  that work on the buffer of positions: the velocity added to the position of index
  \<open>i\<close>, and the position of index \<open>i\<close> copied to the slot \<open>aliveCount\<close>.
\<close>

definition movedPositions :: "real list \<Rightarrow> nat \<Rightarrow> vec3 \<Rightarrow> real list" where
  "movedPositions arr i v =
     (let idx = i * 3;
          p1 = arr[idx := arr ! idx + vx v];
          p2 = p1[idx + 1 := p1 ! (idx + 1) + vy v];
          p3 = p2[idx + 2 := p2 ! (idx + 2) + vz v]
      in p3)"

definition copiedPositions :: "real list \<Rightarrow> nat \<Rightarrow> nat \<Rightarrow> real list" where
  "copiedPositions arr aliveCount i =
     (let idx = i * 3;
          q1 = arr[aliveCount * 3 := arr ! idx];
          q2 = q1[aliveCount * 3 + 1 := q1 ! (idx + 1)];
          q3 = q2[aliveCount * 3 + 2 := q2 ! (idx + 2)]
      in q3)"

text \<open>
  The body of that loop at index \<open>i\<close>, on the index of the next draw, the count
  \<open>aliveCount\<close> and the spark: the life is reduced by \<open>lifeDecrement\<close>
  (\<^verbatim>\<open>0.03 + Math.random() * 0.02\<close>); a spark still alive is moved by its
  velocity, shrunk, and copied down to the slot \<open>aliveCount\<close> when that is not its own.

  A slot of \<^verbatim>\<open>velocities\<close> holds a reference, and the copy to the slot
  \<open>aliveCount\<close> leaves the slot \<open>i\<close> referring to the same vector. The model keeps
  the vectors by value: the slot \<open>i\<close> is either written again later in the same loop or
  left past the live prefix, where emitSparks stores a new vector before the slot is
  read again, so the vectors of the live slots are never shared.
\<close>

definition lifeDecrement :: "random_source \<Rightarrow> nat \<Rightarrow> real" where
  "lifeDecrement rnd n = 0.03 + rnd n * 0.02"

definition sparkStep ::
  "random_source \<Rightarrow> nat \<Rightarrow> nat \<times> nat \<times> welding_spark
    \<Rightarrow> js_error + (nat \<times> nat \<times> welding_spark)" where
  "sparkStep rnd i st =
     (case st of (n, aliveCount, s) \<Rightarrow>
        let s1 = s\<lparr>sparkLives := (sparkLives s)[i := sparkLives s ! i - lifeDecrement rnd n]\<rparr>
        in if sparkLives s1 ! i > 0 then
             (case velocities s1 i of
                None \<Rightarrow> Inl TypeError
              | Some v \<Rightarrow>
                  let v1 = Vector3 (vx v) (vy v - 0.001) (vz v);
                      s2 = s1\<lparr>velocities := (velocities s1)(i \<mapsto> v1),
                              positions := movedPositions (positions s1) i v1,
                              sizes := (sizes s1)[i := sizes s1 ! i * 0.98]\<rparr>;
                      s3 = (if i \<noteq> aliveCount then
                              s2\<lparr>positions := copiedPositions (positions s2) aliveCount i,
                                 sizes := (sizes s2)[aliveCount := sizes s2 ! i],
                                 sparkLives := (sparkLives s2)[aliveCount := sparkLives s2 ! i],
                                 velocities := (velocities s2)(aliveCount \<mapsto> v1)\<rparr>
                            else s2)
                  in Inr (n + 1, aliveCount + 1, s3))
           else Inr (n + 1, aliveCount, s1))"

fun sparkLoop ::
  "random_source \<Rightarrow> nat list \<Rightarrow> nat \<times> nat \<times> welding_spark
    \<Rightarrow> js_error + (nat \<times> nat \<times> welding_spark)" where
  "sparkLoop rnd [] st = Inr st"
| "sparkLoop rnd (i # rest) st =
     (case sparkStep rnd i st of Inl e \<Rightarrow> Inl e | Inr st1 \<Rightarrow> sparkLoop rnd rest st1)"

text \<open>
  \<^verbatim>\<open>WeldingSpark.update\<close>: the guide point advances (and draws a scatter offset
  on a wrap), sparks are emitted when the draw is above 0.7, then the loop runs over
  the live sparks and the count and the draw range are set from \<open>aliveCount\<close>.
\<close>

definition WeldingSpark_advance ::
  "params \<Rightarrow> random_source \<Rightarrow> nat \<Rightarrow> welding_spark \<Rightarrow> nat \<times> welding_spark" where
  "WeldingSpark_advance ps rnd n s =
     (let speed1 = spark_speedFactor (weldingSpark ps) * baseSpeedRandomness s;
          s1 = s\<lparr>speed := speed1, currentT := currentT s + speed1\<rparr>;
          st2 = (if currentT s1 \<ge> 1 then
                   (n + 3, s1\<lparr>currentT := 0,
                       scatterOffset := randomScatter rnd n (particleScatterRadius ps)\<rparr>)
                 else (n, s1))
      in if rnd (fst st2) > 0.7 then emitSparks ps rnd (fst st2 + 1) (snd st2)
         else (fst st2 + 1, snd st2))"

definition WeldingSpark_update ::
  "params \<Rightarrow> random_source \<Rightarrow> nat \<Rightarrow> welding_spark \<Rightarrow> js_error + (nat \<times> welding_spark)" where
  "WeldingSpark_update ps rnd n s =
     (let st3 = WeldingSpark_advance ps rnd n s
      in case sparkLoop rnd [0..<activeParticles (snd st3)] (fst st3, 0, snd st3) of
           Inl e \<Rightarrow> Inl e
         | Inr (n4, aliveCount, s4) \<Rightarrow>
             Inr (n4, s4\<lparr>activeParticles := aliveCount, drawRange := (0, aliveCount)\<rparr>))"

text \<open>Any sequence of calls of the two methods, each under the configuration of its
  moment; a TypeError ends the run.\<close>

datatype spark_call = CallEmitSparks params | CallUpdate params

fun runCalls ::
  "random_source \<Rightarrow> spark_call list \<Rightarrow> nat \<times> welding_spark \<Rightarrow> js_error + (nat \<times> welding_spark)" where
  "runCalls rnd [] st = Inr st"
| "runCalls rnd (CallEmitSparks ps # rest) st =
     runCalls rnd rest (emitSparks ps rnd (fst st) (snd st))"
| "runCalls rnd (CallUpdate ps # rest) st =
     (case WeldingSpark_update ps rnd (fst st) (snd st) of
        Inl e \<Rightarrow> Inl e
      | Inr st1 \<Rightarrow> runCalls rnd rest st1)"

text \<open>The state every welding spark is in between calls: the three typed arrays have
  the lengths the constructor gave them, the count is within the capacity
  \<open>3 \<times> maxLife\<close>, and every live slot has a velocity.\<close>

definition spark_wf :: "welding_spark \<Rightarrow> bool" where
  "spark_wf s =
     (length (positions s) = maxLife s * 3 * 3
      \<and> length (sizes s) = maxLife s * 3
      \<and> length (sparkLives s) = maxLife s * 3
      \<and> activeParticles s \<le> maxLife s * 3
      \<and> (\<forall>i < activeParticles s. velocities s i \<noteq> None))"

text \<open>What a step of the update loop leaves as it is: the lengths of the typed arrays,
  the count, the fields of the guide point, and every velocity slot that was assigned.\<close>

definition spark_frame :: "welding_spark \<Rightarrow> welding_spark \<Rightarrow> bool" where
  "spark_frame s t =
     (length (positions t) = length (positions s)
      \<and> length (sizes t) = length (sizes s)
      \<and> length (sparkLives t) = length (sparkLives s)
      \<and> maxLife t = maxLife s
      \<and> activeParticles t = activeParticles s
      \<and> baseSpeedRandomness t = baseSpeedRandomness s
      \<and> currentT t = currentT s
      \<and> lifecycleOffset t = lifecycleOffset s
      \<and> speed t = speed s
      \<and> path t = path s
      \<and> lifecycleAlpha t = lifecycleAlpha s
      \<and> (\<forall>j. velocities s j \<noteq> None \<longrightarrow> velocities t j \<noteq> None))"

text \<open>
  The data of one spark, read across the pool arrays at an index: life, size, position,
  velocity. \<open>agedSlot d\<close> is what one tick makes of a spark that stays alive: the
  life less \<open>d\<close>, the velocity with gravity applied, the position moved by that
  velocity, the size times 0.98.
\<close>

type_synonym spark_slot = "real \<times> real \<times> vec3 \<times> vec3 option"

definition slot :: "welding_spark \<Rightarrow> nat \<Rightarrow> spark_slot" where
  "slot s i = (sparkLives s ! i, sizes s ! i, sample (positions s) i, velocities s i)"

definition agedSlot :: "real \<Rightarrow> spark_slot \<Rightarrow> spark_slot" where
  "agedSlot d sl =
     (case sl of (l, z, p, vo) \<Rightarrow>
        (l - d, z * 0.98,
         (case vo of None \<Rightarrow> p | Some v \<Rightarrow> vadd p (Vector3 (vx v) (vy v - 0.001) (vz v))),
         map_option (\<lambda>v. Vector3 (vx v) (vy v - 0.001) (vz v)) vo))"

text \<open>
  The indices below \<open>k\<close> of the sparks whose life stays positive in a loop that
  starts at draw \<open>n\<close>, in increasing order; \<open>updateSurvivors\<close> takes them over the
  live sparks of the state the loop of \<^verbatim>\<open>update\<close> starts from.
\<close>

definition survivors :: "random_source \<Rightarrow> nat \<Rightarrow> welding_spark \<Rightarrow> nat \<Rightarrow> nat list" where
  "survivors rnd n s k = filter (\<lambda>i. 0 < sparkLives s ! i - lifeDecrement rnd (n + i)) [0..<k]"

definition updateSurvivors :: "params \<Rightarrow> random_source \<Rightarrow> nat \<Rightarrow> welding_spark \<Rightarrow> nat list" where
  "updateSurvivors ps rnd n s =
     survivors rnd (fst (WeldingSpark_advance ps rnd n s)) (snd (WeldingSpark_advance ps rnd n s))
       (activeParticles (snd (WeldingSpark_advance ps rnd n s)))"

text \<open>
  The compaction the specification describes, on the list of lives after the
  decrement: a slot freed by an expired spark receives the last live slot, and the live
  prefix shrinks by one.
\<close>

fun spec_swap_compact :: "real list \<Rightarrow> real list" where
  "spec_swap_compact [] = []"
| "spec_swap_compact (l # ls) =
     (if 0 < l then l # spec_swap_compact ls
      else if ls = [] then []
      else spec_swap_compact (last ls # butlast ls))"

text \<open>A welding spark with a full pool of three sparks, the first about to expire, and
  options for the constructor.\<close>

definition spark_three :: welding_spark where
  "spark_three =
     \<lparr>path = line_path False, currentT = 0.5, baseSpeedRandomness = 1, speed = 0.006,
      lifecycleOffset = 0.2, scatterOffset = Vector3 0 0 0,
      maxLife = 1,
      positions = [1, 0, 0, 2, 0, 0, 3, 0, 0],
      sizes = [1, 2, 3],
      sparkLives = [0.03, 0.5, 0.9],
      velocities = (\<lambda>i. if i < 3 then Some (Vector3 0 0.001 0) else None),
      activeParticles = 3, drawRange = (0, 3), uSparkHeat = 0.8, lifecycleAlpha = 1\<rparr>"

definition spark_options_example :: spark_options where
  "spark_options_example =
     \<lparr>sopt_trailLength = 16, sopt_speedFactor = 0.006, sopt_sparkSize = 0.5,
      sopt_sparkHeat = 0.8, sopt_scatterRadius = 1.1\<rparr>"

section \<open>The managers\<close>

text \<open>
  The body of the \<^verbatim>\<open>forEach\<close> of each manager's \<^verbatim>\<open>update\<close>, on one
  particle, and the loop over the particles. The tests
  \<^verbatim>\<open>p.material.uniforms.uLifecycleAlpha\<close> and their like are on uniform objects
  the constructors always create, so they hold.
\<close>

definition GlowParticleSystem_updateParticle ::
  "params \<Rightarrow> random_source \<Rightarrow> nat \<Rightarrow> glow_particle \<Rightarrow> nat \<times> glow_particle" where
  "GlowParticleSystem_updateParticle ps rnd n p =
     (let st = GlowParticle_update ps rnd n p;
          p1 = snd st
      in if enabled (lifecycle ps) then
           let finalAlpha = calculateLifecycleAlpha ps p1
           in if \<not> path_closed (path p1) then
                let fadeOutT = fadeOutTime (lifecycle ps);
                    fadeInT = fadeInTime (lifecycle ps);
                    fadeOutStartT = 1 - fadeOutT
                in if currentT p1 > fadeOutStartT then
                     (fst st, p1\<lparr>uLifecycleAlpha :=
                        finalAlpha * (1 - (currentT p1 - fadeOutStartT) / fadeOutT)\<rparr>)
                   else if justReset p1 \<and> currentT p1 < fadeInT then
                     (fst st, p1\<lparr>justReset :=
                                  (if currentT p1 / fadeInT \<ge> 1 then False else justReset p1),
                                uLifecycleAlpha := finalAlpha * (currentT p1 / fadeInT)\<rparr>)
                   else if justReset p1 then
                     (fst st, p1\<lparr>justReset := False, uLifecycleAlpha := finalAlpha\<rparr>)
                   else (fst st, p1\<lparr>uLifecycleAlpha := finalAlpha\<rparr>)
              else (fst st, p1\<lparr>uLifecycleAlpha := finalAlpha\<rparr>)
         else st)"

fun GlowParticleSystem_update ::
  "params \<Rightarrow> random_source \<Rightarrow> nat \<Rightarrow> glow_particle list \<Rightarrow> nat \<times> glow_particle list" where
  "GlowParticleSystem_update ps rnd n [] = (n, [])"
| "GlowParticleSystem_update ps rnd n (p # rest) =
     (let st = GlowParticleSystem_updateParticle ps rnd n p;
          st2 = GlowParticleSystem_update ps rnd (fst st) rest
      in (fst st2, snd st # snd st2))"

definition WeldingSparkParticleSystem_updateParticle ::
  "params \<Rightarrow> random_source \<Rightarrow> nat \<Rightarrow> welding_spark \<Rightarrow> js_error + (nat \<times> welding_spark)" where
  "WeldingSparkParticleSystem_updateParticle ps rnd n s =
     (case WeldingSpark_update ps rnd n s of
        Inl e \<Rightarrow> Inl e
      | Inr st \<Rightarrow>
          if enabled (lifecycle ps)
          then Inr (fst st, (snd st)\<lparr>lifecycleAlpha := calculateLifecycleAlpha ps (snd st)\<rparr>)
          else Inr st)"

fun WeldingSparkParticleSystem_update ::
  "params \<Rightarrow> random_source \<Rightarrow> nat \<Rightarrow> welding_spark list
    \<Rightarrow> js_error + (nat \<times> welding_spark list)" where
  "WeldingSparkParticleSystem_update ps rnd n [] = Inr (n, [])"
| "WeldingSparkParticleSystem_update ps rnd n (s # rest) =
     (case WeldingSparkParticleSystem_updateParticle ps rnd n s of
        Inl e \<Rightarrow> Inl e
      | Inr st \<Rightarrow>
          (case WeldingSparkParticleSystem_update ps rnd (fst st) rest of
             Inl e \<Rightarrow> Inl e
           | Inr st2 \<Rightarrow> Inr (fst st2, snd st # snd st2)))"

definition CometParticleSystem_updateParticle ::
  "params \<Rightarrow> random_source \<Rightarrow> nat \<Rightarrow> comet_particle \<Rightarrow> nat \<times> comet_particle" where
  "CometParticleSystem_updateParticle ps rnd n c =
     (let st = Comet_update ps rnd n c;
          c1 = snd st
      in if enabled (lifecycle ps) then
           let la = calculateLifecycleAlpha ps c1
           in (fst st,
               c1\<lparr>headMaterial := (headMaterial c1)\<lparr>hm_lifecycleAlpha := la\<rparr>,
                  tailMaterial := (tailMaterial c1)\<lparr>tm_lifecycleAlpha := la\<rparr>,
                  wideTailMeshes :=
                    map (\<lambda>w. w\<lparr>wt_material := (wt_material w)\<lparr>tm_lifecycleAlpha := la\<rparr>\<rparr>)
                      (wideTailMeshes c1)\<rparr>)
         else st)"

fun CometParticleSystem_update ::
  "params \<Rightarrow> random_source \<Rightarrow> nat \<Rightarrow> comet_particle list \<Rightarrow> nat \<times> comet_particle list" where
  "CometParticleSystem_update ps rnd n [] = (n, [])"
| "CometParticleSystem_update ps rnd n (c # rest) =
     (let st = CometParticleSystem_updateParticle ps rnd n c;
          st2 = CometParticleSystem_update ps rnd (fst st) rest
      in (fst st2, snd st # snd st2))"


section \<open>Colours\<close>

text \<open>
  \<open>activePalette\<close> is the array both colour functions build, the enabled palette
  colours in the order 1 to 5. The index of the pick is
  \<^verbatim>\<open>Math.floor(Math.random() * activePalette.length)\<close>.
\<close>

definition activePalette :: "params \<Rightarrow> string list" where
  "activePalette ps =
     (if paletteColor1Enabled ps then [paletteColor1 ps] else [])
     @ (if paletteColor2Enabled ps then [paletteColor2 ps] else [])
     @ (if paletteColor3Enabled ps then [paletteColor3 ps] else [])
     @ (if paletteColor4Enabled ps then [paletteColor4 ps] else [])
     @ (if paletteColor5Enabled ps then [paletteColor5 ps] else [])"

definition randomIndex :: "real \<Rightarrow> nat \<Rightarrow> nat" where
  "randomIndex r len = nat \<lfloor>r * real len\<rfloor>"

definition setParticleColor ::
  "params \<Rightarrow> random_source \<Rightarrow> nat \<Rightarrow> glow_particle \<Rightarrow> nat \<times> glow_particle" where
  "setParticleColor ps rnd n p =
     (if currentTheme ps = ''light'' then (n, p\<lparr>color := ColorHex 0x222222\<rparr>)
      else if colorMode ps = ''rainbow'' then (n + 1, p\<lparr>color := ColorHSL (rnd n) 0.7 0.6\<rparr>)
      else if colorMode ps = ''single'' then (n, p\<lparr>color := ColorString (singleColorValue ps)\<rparr>)
      else if colorMode ps = ''palette'' then
        (if length (activePalette ps) > 0 then
           (n + 1, p\<lparr>color := ColorString
                     (activePalette ps ! randomIndex (rnd n) (length (activePalette ps)))\<rparr>)
         else (n, p\<lparr>color := ColorString ''#ffffff''\<rparr>))
      else (n + 1, p\<lparr>color := ColorHSL (rnd n) 0.7 0.6\<rparr>))"

definition setCometColor ::
  "params \<Rightarrow> random_source \<Rightarrow> nat \<Rightarrow> comet_particle \<Rightarrow> nat \<times> comet_particle" where
  "setCometColor ps rnd n c =
     (let (n1, col) =
            (if currentTheme ps = ''light'' then (n, ColorHex 0x0066cc)
             else if comet_colorMode (comet ps) = ''rainbow'' then (n + 1, ColorHSL (rnd n) 0.8 0.6)
             else if comet_colorMode (comet ps) = ''single''
               then (n, ColorString (cometColor (comet ps)))
             else if comet_colorMode (comet ps) = ''palette'' then
               (if length (activePalette ps) > 0 then
                  (n + 1, ColorString
                     (activePalette ps ! randomIndex (rnd n) (length (activePalette ps))))
                else (n, ColorString (cometColor (comet ps))))
             else (n, ColorString (cometColor (comet ps))))
      in (n1, c\<lparr>headMaterial := (headMaterial c)\<lparr>hm_cometColor := col\<rparr>,
                tailMaterial := (tailMaterial c)\<lparr>tm_cometColor := col\<rparr>\<rparr>))"

section \<open>Path generators\<close>

text \<open>
  \<open>vivianiT\<close> is the curve parameter of the point of index \<open>i\<close>,
  \<^verbatim>\<open>(i / numPoints) * tMax\<close> with \<^verbatim>\<open>tMax = 4 * Math.PI\<close>, and
  \<open>vivianiPoint\<close> the body of the loop of createVivianiCurvePoints.
\<close>

definition vivianiT :: "nat \<Rightarrow> nat \<Rightarrow> real" where
  "vivianiT numPoints i = (real i / real numPoints) * (4 * pi)"

definition vivianiPoint :: "real \<Rightarrow> nat \<Rightarrow> nat \<Rightarrow> vec3" where
  "vivianiPoint a numPoints i =
     (let t = vivianiT numPoints i;
          x = a * (1 + cos t);
          y = a * sin t;
          z = 2 * a * sin (t / 2)
      in Vector3 x y z)"

definition createVivianiCurvePoints :: "real \<Rightarrow> nat \<Rightarrow> vec3 list" where
  "createVivianiCurvePoints a numPoints = map (vivianiPoint a numPoints) [0..<numPoints + 1]"

text \<open>A buffer of \<open>len\<close> positions that all equal \<open>v\<close>.\<close>

definition uniformTrail :: "real list \<Rightarrow> nat \<Rightarrow> vec3 \<Rightarrow> bool" where
  "uniformTrail arr len v = (length arr = len * 3 \<and> (\<forall>i<len. sample arr i = v))"

text \<open>A glow particle one tick before the end of an open path, for the concrete checks.\<close>

definition glow_example :: glow_particle where
  "glow_example =
     \<lparr>path = line_path False, currentT = 0.9995, baseSpeedRandomness = 1, speed = 0.0007,
      lifecycleOffset = 0.2, scatterOffset = Vector3 0 0 0,
      trailLength = 3, justReset = False,
      trailPositions = [0.9995, 0, 0, 0.9988, 0, 0, 0.9981, 0, 0],
      trailAlphas = [1, 0.5, 0], color = ColorHex 0xffffff, uBoldness = 1,
      uLifecycleAlpha = 1\<rparr>"

text \<open>A comet near the end of an open path, with one additional tail line, and the
  configuration with the comet in palette mode and a chosen set of enabled colours.\<close>

definition comet_example :: comet_particle where
  "comet_example =
     \<lparr>path = line_path False, currentT = 0.945, baseSpeedRandomness = 1, speed = 0.005,
      lifecycleOffset = 0.2, scatterOffset = Vector3 0 0 0,
      tailLength = 2, headPosition = [0.945, 0, 0],
      tailPositions = [0.945, 0, 0, 0.945, 0, 0], tailFades = [1, 0],
      headMaterial = \<lparr>hm_cometColor = ColorString ''#80ffff'', hm_headSize = 1,
                       hm_glowIntensity = 0.8, hm_lifecycleAlpha = 1\<rparr>,
      tailMaterial = \<lparr>tm_cometColor = ColorString ''#80ffff'', tm_tailWidth = 0.8,
                       tm_tailFade = 0.8, tm_glowIntensity = 0.8, tm_lifecycleAlpha = 1\<rparr>,
      wideTailMeshes =
        [\<lparr>wt_positions = [0.995, 0, 0, 0.995, 0, 0], wt_tailFades = [1, 0],
          wt_material = \<lparr>tm_cometColor = ColorString ''#80ffff'', tm_tailWidth = 0.8,
                       tm_tailFade = 0.8, tm_glowIntensity = 0.8, tm_lifecycleAlpha = 1\<rparr>\<rparr>]\<rparr>"

definition palette_params :: "bool \<Rightarrow> bool \<Rightarrow> bool \<Rightarrow> bool \<Rightarrow> bool \<Rightarrow> params" where
  "palette_params e1 e2 e3 e4 e5 =
     default_params\<lparr>comet := (comet default_params)\<lparr>comet_colorMode := ''palette''\<rparr>,
       paletteColor1Enabled := e1, paletteColor2Enabled := e2, paletteColor3Enabled := e3,
       paletteColor4Enabled := e4, paletteColor5Enabled := e5\<rparr>"

text \<open>Options for the constructors of a glow particle and of a comet, as
  createParticles builds them from the configuration main.js starts with.\<close>

definition glow_options_example :: glow_options where
  "glow_options_example =
     \<lparr>opt_trailLength = 22, opt_speedFactor = 0.0007, opt_boldness = 1,
      opt_scatterRadius = 1.1\<rparr>"

definition comet_options_example :: comet_options where
  "comet_options_example =
     \<lparr>copt_tailLength = 20, copt_headSize = 1, copt_tailWidth = 0.8, copt_tailFade = 0.8,
      copt_glowIntensity = 0.8, copt_speedFactor = 0.005, copt_scatterRadius = 1.1,
      copt_color = ''#80ffff''\<rparr>"

text \<open>A path whose point at 0 is not the origin, a random source whose successive draws
  differ, and a glow particle on that path one tick before its end.\<close>

definition shifted_path :: curve_path where
  "shifted_path =
     \<lparr>path_closed = False, getPointAt = (\<lambda>t. Vector3 (1 + t) 2 3),
      getTangentAt = (\<lambda>t. Vector3 1 0 0)\<rparr>"

definition ramp_source :: random_source where
  "ramp_source n = real n / 4"

definition glow_shifted_example :: glow_particle where
  "glow_shifted_example = glow_example\<lparr>path := shifted_path\<rparr>"

section \<open>The lifecycle alpha\<close>

lemma js_rem_one_nonneg:
  assumes "0 \<le> x"
  shows "js_rem x 1 = x - real_of_int \<lfloor>x\<rfloor>"
  using assms by (simp add: js_rem_def js_trunc_def)

lemma js_rem_one_range:
  assumes "0 \<le> x"
  shows "0 \<le> js_rem x 1 \<and> js_rem x 1 < 1"
proof -
  have "real_of_int \<lfloor>x\<rfloor> \<le> x" and "x < real_of_int \<lfloor>x\<rfloor> + 1"
    by linarith+
  then have "0 \<le> x - real_of_int \<lfloor>x\<rfloor> \<and> x - real_of_int \<lfloor>x\<rfloor> < 1"
    by linarith
  then show ?thesis
    using assms by (simp only: js_rem_one_nonneg)
qed

text \<open>
  C1. With the lifecycle enabled and the three times positive, the alpha that
  calculateLifecycleAlpha returns is the function of the specification at the position
  \<open>p = (lifecycleOffset + currentT) % 1\<close>: \<open>p / fadeIn\<close> before \<open>fadeIn\<close>, one up
  to \<open>fadeIn + stable\<close>, \<open>1 - (p - fadeIn - stable) / fadeOut\<close> from there, clamped
  to [0,1]. It is 0 at \<open>p = 0\<close>, 1 at \<open>p = fadeIn\<close> and at \<open>p = fadeIn + stable\<close>,
  and it lies in [0,1]; for a particle whose offset and parameter are not negative,
  \<open>p\<close> is the fractional part of their sum and lies in [0,1).
\<close>

theorem calculateLifecycleAlpha_piecewise:
  assumes "enabled (lifecycle ps)"
    and "0 < fadeInTime (lifecycle ps)"
    and "0 < stableTime (lifecycle ps)"
    and "0 < fadeOutTime (lifecycle ps)"
  shows "calculateLifecycleAlpha ps p =
           spec_lifecycle_alpha (fadeInTime (lifecycle ps)) (stableTime (lifecycle ps))
             (fadeOutTime (lifecycle ps)) (lifecyclePos p)
         \<and> 0 \<le> calculateLifecycleAlpha ps p \<and> calculateLifecycleAlpha ps p \<le> 1
         \<and> (lifecyclePos p = 0 \<longrightarrow> calculateLifecycleAlpha ps p = 0)
         \<and> (lifecyclePos p = fadeInTime (lifecycle ps) \<longrightarrow> calculateLifecycleAlpha ps p = 1)
         \<and> (lifecyclePos p = fadeInTime (lifecycle ps) + stableTime (lifecycle ps)
              \<longrightarrow> calculateLifecycleAlpha ps p = 1)
         \<and> (0 \<le> lifecycleOffset p + currentT p \<longrightarrow>
              lifecyclePos p
                = lifecycleOffset p + currentT p - real_of_int \<lfloor>lifecycleOffset p + currentT p\<rfloor>
              \<and> 0 \<le> lifecyclePos p \<and> lifecyclePos p < 1)"
proof -
  have eq: "calculateLifecycleAlpha ps p =
           spec_lifecycle_alpha (fadeInTime (lifecycle ps)) (stableTime (lifecycle ps))
             (fadeOutTime (lifecycle ps)) (lifecyclePos p)"
    using assms by (simp add: calculateLifecycleAlpha_def spec_lifecycle_alpha_def Let_def)
  have range: "0 \<le> calculateLifecycleAlpha ps p \<and> calculateLifecycleAlpha ps p \<le> 1"
    by (simp add: calculateLifecycleAlpha_def Let_def)
  have zero: "lifecyclePos p = 0 \<longrightarrow> calculateLifecycleAlpha ps p = 0"
    using assms by (simp add: calculateLifecycleAlpha_def Let_def)
  have top: "lifecyclePos p = fadeInTime (lifecycle ps) \<longrightarrow> calculateLifecycleAlpha ps p = 1"
    using assms by (simp add: calculateLifecycleAlpha_def Let_def)
  have hold: "lifecyclePos p = fadeInTime (lifecycle ps) + stableTime (lifecycle ps)
              \<longrightarrow> calculateLifecycleAlpha ps p = 1"
    using assms by (simp add: calculateLifecycleAlpha_def Let_def)
  have pos: "0 \<le> lifecycleOffset p + currentT p \<longrightarrow>
              lifecyclePos p
                = lifecycleOffset p + currentT p - real_of_int \<lfloor>lifecycleOffset p + currentT p\<rfloor>
              \<and> 0 \<le> lifecyclePos p \<and> lifecyclePos p < 1"
    using js_rem_one_nonneg js_rem_one_range by (simp add: lifecyclePos_def)
  from eq range zero top hold pos show ?thesis by blast
qed

theorem calculateLifecycleAlpha_piecewise_witness:
  "calculateLifecycleAlpha default_params (particle_at 0 0) = 0
   \<and> calculateLifecycleAlpha default_params (particle_at 0 0.09) = 1
   \<and> calculateLifecycleAlpha default_params (particle_at 0.5 0.49) = 1
   \<and> calculateLifecycleAlpha default_params (particle_at 0.25 1.25)
       = spec_lifecycle_alpha 0.09 0.9 0.2 0.5
   \<and> lifecyclePos (particle_at 0.25 1.25) = 0.5"
proof -
  have h: "enabled (lifecycle default_params)" "0 < fadeInTime (lifecycle default_params)"
    "0 < stableTime (lifecycle default_params)" "0 < fadeOutTime (lifecycle default_params)"
    by (simp_all add: default_params_def default_lifecycle_def)
  have v: "fadeInTime (lifecycle default_params) = 0.09"
    "stableTime (lifecycle default_params) = 0.9"
    "fadeOutTime (lifecycle default_params) = 0.2"
    by (simp_all add: default_params_def default_lifecycle_def)
  have p0: "lifecyclePos (particle_at 0 0) = 0"
    by (simp add: lifecyclePos_def particle_at_def js_rem_def js_trunc_def)
  have p1: "lifecyclePos (particle_at 0 0.09) = 0.09"
    by (simp add: lifecyclePos_def particle_at_def js_rem_def js_trunc_def)
  have p2: "lifecyclePos (particle_at 0.5 0.49) = 0.09 + 0.9"
    by (simp add: lifecyclePos_def particle_at_def js_rem_def js_trunc_def)
  have p3: "lifecyclePos (particle_at 0.25 1.25) = 0.5"
    by (simp add: lifecyclePos_def particle_at_def js_rem_def js_trunc_def)
  have a: "calculateLifecycleAlpha default_params (particle_at 0 0) = 0"
    using calculateLifecycleAlpha_piecewise [OF h, of "particle_at 0 0"] p0 by blast
  have b: "calculateLifecycleAlpha default_params (particle_at 0 0.09) = 1"
    using calculateLifecycleAlpha_piecewise [OF h, of "particle_at 0 0.09"] p1
    unfolding v by blast
  have c: "calculateLifecycleAlpha default_params (particle_at 0.5 0.49) = 1"
    using calculateLifecycleAlpha_piecewise [OF h, of "particle_at 0.5 0.49"] p2
    unfolding v by blast
  have d: "calculateLifecycleAlpha default_params (particle_at 0.25 1.25)
       = spec_lifecycle_alpha 0.09 0.9 0.2 0.5"
    using calculateLifecycleAlpha_piecewise [OF h, of "particle_at 0.25 1.25"]
    unfolding v p3 by blast
  from a b c d p3 show ?thesis by blast
qed

text \<open>
  C10. With the lifecycle switched off in the configuration, calculateLifecycleAlpha
  returns exactly 1 for every particle, whatever its parameter and its offset.
\<close>

theorem calculateLifecycleAlpha_disabled:
  assumes "\<not> enabled (lifecycle ps)"
  shows "calculateLifecycleAlpha ps p = 1"
  using assms by (simp add: calculateLifecycleAlpha_def)

theorem calculateLifecycleAlpha_disabled_witness:
  "\<not> enabled (lifecycle (default_params\<lparr>lifecycle := default_lifecycle\<lparr>enabled := False\<rparr>\<rparr>))
   \<and> calculateLifecycleAlpha
        (default_params\<lparr>lifecycle := default_lifecycle\<lparr>enabled := False\<rparr>\<rparr>)
        (particle_at 0.3 0.5) = 1"
proof -
  have h: "\<not> enabled (lifecycle (default_params\<lparr>lifecycle := default_lifecycle\<lparr>enabled := False\<rparr>\<rparr>))"
    by simp
  show ?thesis
    using h calculateLifecycleAlpha_disabled [OF h, of "particle_at 0.3 0.5"] by simp
qed

section \<open>The trail of a glow particle\<close>

lemma length_toArray [simp]: "length (toArray v arr off) = length arr"
  by (simp add: toArray_def)

lemma fold_update_length:
  "length (fold (\<lambda>i a. a[i := f i]) is al) = length al"
  by (induction "is" arbitrary: al) simp_all

lemma fold_update_nth:
  assumes "k \<le> length al" and "i < k"
  shows "fold (\<lambda>i a. a[i := f i]) [0..<k] al ! i = f i"
  using assms
proof (induction k)
  case 0
  then show ?case by simp
next
  case (Suc k)
  show ?case
  proof (cases "i = k")
    case True
    with Suc.prems show ?thesis by (simp add: fold_update_length)
  next
    case False
    with Suc.prems have "i < k" and "k \<le> length al" by simp_all
    with Suc.IH False show ?thesis by simp
  qed
qed

lemma fadeDenominator_ge_one: "1 \<le> fadeDenominator len"
  by (simp add: fadeDenominator_def)

lemma fadeWeight_range:
  assumes "i < len"
  shows "0 \<le> fadeWeight len i \<and> fadeWeight len i \<le> 1"
proof -
  have "real i \<le> real len - 1" using assms by linarith
  then have "real i \<le> fadeDenominator len" by (simp add: fadeDenominator_def)
  moreover have "0 < fadeDenominator len" using fadeDenominator_ge_one [of len] by linarith
  ultimately have "real i / fadeDenominator len \<le> 1" and "0 \<le> real i / fadeDenominator len"
    by simp_all
  then show ?thesis by (simp add: fadeWeight_def)
qed

lemma fadeWeight_head: "fadeWeight len 0 = 1"
  by (simp add: fadeWeight_def)

lemma fadeWeight_tail:
  assumes "2 \<le> len"
  shows "fadeWeight len (len - 1) = 0"
proof -
  have "real (len - 1) = real len - 1" using assms by (simp add: of_nat_diff)
  moreover have "1 \<le> real len - 1" using assms by linarith
  ultimately show ?thesis by (simp add: fadeWeight_def fadeDenominator_def)
qed

lemma recalcAlphas_length: "length (recalcAlphas len al) = length al"
  by (simp add: recalcAlphas_def Let_def fold_update_length)

lemma recalcAlphas_nth:
  assumes "len \<le> length al" and "i < len"
  shows "recalcAlphas len al ! i = fadeWeight len i"
proof -
  define F where "F = fold (\<lambda>i a. a[i := fadeWeight len i]) [0..<len] al"
  have a: "F ! i = fadeWeight len i"
    unfolding F_def using assms by (rule fold_update_nth)
  have l: "length F = length al"
    unfolding F_def by (rule fold_update_length)
  have r: "recalcAlphas len al = F[0 := 1]"
    using assms by (simp add: recalcAlphas_def Let_def F_def [symmetric])
  show ?thesis
  proof (cases "i = 0")
    case True
    have "0 < length F" using assms l by linarith
    then have "F[0 := 1] ! 0 = 1" by simp
    with True r show ?thesis by (simp add: fadeWeight_head)
  next
    case False
    with a r show ?thesis by simp
  qed
qed

lemma GlowParticle_update_alphas:
  "trailAlphas (snd (GlowParticle_update ps rnd n p)) = recalcAlphas (trailLength p) (trailAlphas p)"
  by (simp add: GlowParticle_update_def Let_def split: prod.splits if_splits)

lemma GlowParticle_update_trailLength:
  "trailLength (snd (GlowParticle_update ps rnd n p)) = trailLength p"
  by (simp add: GlowParticle_update_def Let_def split: prod.splits if_splits)


lemma sample_toArray_same:
  assumes "i * 3 + 2 < length arr"
  shows "sample (toArray v arr (i * 3)) i = v"
  using assms by (simp add: sample_def toArray_def)

lemma sample_toArray_other:
  assumes "i \<noteq> j"
  shows "sample (toArray v arr (j * 3)) i = sample arr i"
proof -
  have "i * 3 \<noteq> j * 3" "i * 3 \<noteq> j * 3 + 1" "i * 3 \<noteq> j * 3 + 2"
    "i * 3 + 1 \<noteq> j * 3" "i * 3 + 1 \<noteq> j * 3 + 1" "i * 3 + 1 \<noteq> j * 3 + 2"
    "i * 3 + 2 \<noteq> j * 3" "i * 3 + 2 \<noteq> j * 3 + 1" "i * 3 + 2 \<noteq> j * 3 + 2"
    using assms by presburger+
  then show ?thesis
    by (simp add: sample_def toArray_def)
qed

lemma teleport_fold_length:
  "length (fold (\<lambda>i a. toArray v a (i * 3)) is arr) = length arr"
  by (induction "is" arbitrary: arr) simp_all

lemma teleport_fold_sample:
  assumes "k * 3 \<le> length arr" and "i < k"
  shows "sample (fold (\<lambda>i a. toArray v a (i * 3)) [0..<k] arr) i = v"
  using assms
proof (induction k)
  case 0
  then show ?case by simp
next
  case (Suc k)
  show ?case
  proof (cases "i = k")
    case True
    have "k * 3 + 2 < length (fold (\<lambda>i a. toArray v a (i * 3)) [0..<k] arr)"
      using Suc.prems by (simp add: teleport_fold_length)
    then show ?thesis
      using True by (simp add: sample_toArray_same)
  next
    case False
    with Suc.prems have "i < k" and "k * 3 \<le> length arr" by simp_all
    with Suc.IH have "sample (fold (\<lambda>i a. toArray v a (i * 3)) [0..<k] arr) i = v" by simp
    with False show ?thesis by (simp add: sample_toArray_other)
  qed
qed

lemma teleportTrail_sample:
  assumes "length arr = len * 3" and "i < len"
  shows "sample (teleportTrail v len arr) i = v"
  unfolding teleportTrail_def using assms by (simp add: teleport_fold_sample)

lemma teleportTrail_length: "length (teleportTrail v len arr) = length arr"
  by (simp add: teleportTrail_def teleport_fold_length)

lemma sample_components:
  assumes "sample arr i = v"
  shows "arr ! (i * 3) = vx v" and "arr ! (i * 3 + 1) = vy v" and "arr ! (i * 3 + 2) = vz v"
  using assms [symmetric] by (simp_all add: sample_def)

lemma shiftStep_uniform:
  assumes "uniformTrail arr len v" and "1 \<le> j" and "j < len"
  shows "shiftStep j arr = arr"
proof -
  have a: "sample arr j = v" and b: "sample arr (j - 1) = v"
    using assms by (simp_all add: uniformTrail_def)
  have x: "arr ! ((j - 1) * 3) = arr ! (j * 3)"
    and y: "arr ! ((j - 1) * 3 + 1) = arr ! (j * 3 + 1)"
    and z: "arr ! ((j - 1) * 3 + 2) = arr ! (j * 3 + 2)"
    using sample_components [OF a] sample_components [OF b] by simp_all
  have 1: "arr[j * 3 := arr ! ((j - 1) * 3)] = arr"
    unfolding x by (rule list_update_id)
  have 2: "arr[j * 3 + 1 := arr ! ((j - 1) * 3 + 1)] = arr"
    unfolding y by (rule list_update_id)
  have 3: "arr[j * 3 + 2 := arr ! ((j - 1) * 3 + 2)] = arr"
    unfolding z by (rule list_update_id)
  show ?thesis
    by (simp only: shiftStep_def Let_def 1 2 3)
qed

lemma fold_shiftStep_uniform:
  assumes "uniformTrail arr len v" and "\<forall>j \<in> set js. 1 \<le> j \<and> j < len"
  shows "fold shiftStep js arr = arr"
  using assms by (induction js) (simp_all add: shiftStep_uniform)

lemma shiftTrail_uniform:
  assumes "uniformTrail arr len v"
  shows "shiftTrail len arr = arr"
  unfolding shiftTrail_def using assms by (rule fold_shiftStep_uniform) simp

lemma toArray_head_uniform:
  assumes "uniformTrail arr len v"
  shows "toArray v arr 0 = arr"
proof (cases "len = 0")
  case True
  with assms show ?thesis by (simp add: uniformTrail_def toArray_def)
next
  case False
  with assms have "sample arr 0 = v" by (simp add: uniformTrail_def)
  from sample_components [OF this]
  have c: "vx v = arr ! 0" "vy v = arr ! (0 + 1)" "vz v = arr ! (0 + 2)"
    by simp_all
  show ?thesis unfolding toArray_def c by (simp only: list_update_id)
qed

lemma GlowParticle_update_wrap:
  assumes "1 \<le> currentT p + glow_speedFactor (glow ps) * baseSpeedRandomness p"
    and "length (trailPositions p) = trailLength p * 3"
  shows "GlowParticle_update ps rnd n p =
    (n + 3,
     p\<lparr>speed := glow_speedFactor (glow ps) * baseSpeedRandomness p,
       currentT := 0,
       scatterOffset := randomScatter rnd n (particleScatterRadius ps),
       justReset := (if \<not> path_closed (path p) then True else justReset p),
       trailPositions := teleportTrail
          (vadd (getPointAt (path p) 0) (randomScatter rnd n (particleScatterRadius ps)))
          (trailLength p) (trailPositions p),
       trailAlphas := recalcAlphas (trailLength p) (trailAlphas p)\<rparr>)"
proof -
  define v where "v = vadd (getPointAt (path p) 0) (randomScatter rnd n (particleScatterRadius ps))"
  define T where "T = teleportTrail v (trailLength p) (trailPositions p)"
  have u: "uniformTrail T (trailLength p) v"
    unfolding uniformTrail_def T_def
    using assms(2) by (simp add: teleportTrail_length teleportTrail_sample)
  have s: "toArray v (shiftTrail (trailLength p) T) 0 = T"
    using u by (simp add: shiftTrail_uniform toArray_head_uniform)
  show ?thesis
    using assms(1) s
    by (simp add: GlowParticle_update_def Let_def v_def [symmetric] T_def [symmetric])
qed


text \<open>
  C8. After every tick of a glow particle with a trail of at least one sample, the
  fade weights are the linear ramp \<open>1 - i / max 1 (len - 1)\<close>: the denominator is at
  least 1, so nothing is divided by zero; every weight lies in [0,1]; the head has
  weight 1; the tail of a trail of two samples or more has weight 0; and the only
  weight of a trail of one sample is 1.
\<close>

theorem GlowParticle_update_fade_weights:
  assumes "1 \<le> trailLength p" and "length (trailAlphas p) = trailLength p"
  shows "length (trailAlphas (snd (GlowParticle_update ps rnd n p))) = trailLength p
     \<and> fadeDenominator (trailLength p) = max 1 (real (trailLength p) - 1)
     \<and> 1 \<le> fadeDenominator (trailLength p)
     \<and> (\<forall>i < trailLength p.
           trailAlphas (snd (GlowParticle_update ps rnd n p)) ! i
             = 1 - real i / fadeDenominator (trailLength p)
           \<and> 0 \<le> trailAlphas (snd (GlowParticle_update ps rnd n p)) ! i
           \<and> trailAlphas (snd (GlowParticle_update ps rnd n p)) ! i \<le> 1)
     \<and> trailAlphas (snd (GlowParticle_update ps rnd n p)) ! 0 = 1
     \<and> (2 \<le> trailLength p \<longrightarrow>
           trailAlphas (snd (GlowParticle_update ps rnd n p)) ! (trailLength p - 1) = 0)
     \<and> (trailLength p = 1 \<longrightarrow> trailAlphas (snd (GlowParticle_update ps rnd n p)) = [1])"
proof -
  define al where "al = trailAlphas (snd (GlowParticle_update ps rnd n p))"
  define len where "len = trailLength p"
  have al: "al = recalcAlphas len (trailAlphas p)"
    by (simp add: al_def len_def GlowParticle_update_alphas)
  have l: "length al = len"
    using assms by (simp add: al recalcAlphas_length len_def)
  have nth: "al ! i = fadeWeight len i" if "i < len" for i
    using that assms by (simp add: al recalcAlphas_nth len_def)
  have ramp: "\<forall>i < len. al ! i = 1 - real i / fadeDenominator len \<and> 0 \<le> al ! i \<and> al ! i \<le> 1"
    using nth fadeWeight_range by (simp add: fadeWeight_def)
  have "0 < len" using assms by (simp add: len_def)
  then have head: "al ! 0 = 1" using nth [of 0] by (simp add: fadeWeight_head)
  have tail: "2 \<le> len \<longrightarrow> al ! (len - 1) = 0"
  proof
    assume two: "2 \<le> len"
    then have "len - 1 < len" by simp
    then have "al ! (len - 1) = fadeWeight len (len - 1)" by (rule nth)
    with two show "al ! (len - 1) = 0" by (simp only: fadeWeight_tail)
  qed
  have single: "len = 1 \<longrightarrow> al = [1]"
  proof
    assume "len = 1"
    with l have "length al = 1" by simp
    then obtain a where "al = [a]" by (cases al) simp_all
    with head show "al = [1]" by simp
  qed
  have d: "fadeDenominator len = max 1 (real len - 1)" by (simp add: fadeDenominator_def)
  from l d fadeDenominator_ge_one [of len] ramp head tail single show ?thesis
    unfolding al_def len_def by blast
qed

theorem GlowParticle_update_fade_weights_witness:
  "1 \<le> trailLength glow_example
   \<and> length (trailAlphas glow_example) = trailLength glow_example
   \<and> trailAlphas (snd (GlowParticle_update default_params (\<lambda>n. 3 / 4) 0 glow_example)) ! 0 = 1
   \<and> trailAlphas (snd (GlowParticle_update default_params (\<lambda>n. 3 / 4) 0 glow_example)) ! 1
        = 1 - real 1 / fadeDenominator 3
   \<and> trailAlphas (snd (GlowParticle_update default_params (\<lambda>n. 3 / 4) 0 glow_example)) ! 2 = 0
   \<and> fadeDenominator 3 = 2"
proof -
  have h: "1 \<le> trailLength glow_example"
    "length (trailAlphas glow_example) = trailLength glow_example"
    by (simp_all add: glow_example_def)
  have len: "trailLength glow_example = 3" by (simp add: glow_example_def)
  have d: "fadeDenominator 3 = 2" by (simp add: fadeDenominator_def)
  from GlowParticle_update_fade_weights [OF h, of default_params "\<lambda>n. 3 / 4" 0] h d
  show ?thesis unfolding len by simp
qed

text \<open>
  C3. On the tick where the parameter of a glow particle with a trail of at least one
  sample reaches 1, the particle resets the parameter to 0 and draws a fresh scatter
  offset: its three components are \<open>(r - 0.5) * 2 * particleScatterRadius\<close> for the
  next three draws \<open>r\<close> of the random source, in the order x, y, z. When the tick is
  over every sample of the trail buffer is the new head position: the point of the path
  at 0 plus the new scatter offset, component by component.
\<close>

theorem GlowParticle_update_wrap_teleports:
  assumes "1 \<le> trailLength p"
    and "length (trailPositions p) = trailLength p * 3"
    and "1 \<le> currentT p + glow_speedFactor (glow ps) * baseSpeedRandomness p"
  shows "fst (GlowParticle_update ps rnd n p) = n + 3
     \<and> currentT (snd (GlowParticle_update ps rnd n p)) = 0
     \<and> scatterOffset (snd (GlowParticle_update ps rnd n p))
          = randomScatter rnd n (particleScatterRadius ps)
     \<and> scatterOffset (snd (GlowParticle_update ps rnd n p))
          = Vector3 ((rnd n - 0.5) * 2 * particleScatterRadius ps)
              ((rnd (n + 1) - 0.5) * 2 * particleScatterRadius ps)
              ((rnd (n + 2) - 0.5) * 2 * particleScatterRadius ps)
     \<and> path (snd (GlowParticle_update ps rnd n p)) = path p
     \<and> trailLength (snd (GlowParticle_update ps rnd n p)) = trailLength p
     \<and> length (trailPositions (snd (GlowParticle_update ps rnd n p))) = trailLength p * 3
     \<and> sample (trailPositions (snd (GlowParticle_update ps rnd n p))) 0
          = vadd (getPointAt (path p) 0) (scatterOffset (snd (GlowParticle_update ps rnd n p)))
     \<and> (\<forall>i < trailLength p.
           sample (trailPositions (snd (GlowParticle_update ps rnd n p))) i
             = sample (trailPositions (snd (GlowParticle_update ps rnd n p))) 0)
     \<and> (\<forall>i < trailLength p.
           sample (trailPositions (snd (GlowParticle_update ps rnd n p))) i
             = Vector3
                 (vx (getPointAt (path p) 0) + (rnd n - 0.5) * 2 * particleScatterRadius ps)
                 (vy (getPointAt (path p) 0) + (rnd (n + 1) - 0.5) * 2 * particleScatterRadius ps)
                 (vz (getPointAt (path p) 0) + (rnd (n + 2) - 0.5) * 2 * particleScatterRadius ps))"
proof -
  define v where "v = vadd (getPointAt (path p) 0) (randomScatter rnd n (particleScatterRadius ps))"
  note w = GlowParticle_update_wrap [OF assms(3) assms(2), of rnd n]
  have all: "\<forall>i < trailLength p.
      sample (trailPositions (snd (GlowParticle_update ps rnd n p))) i = v"
    using assms(2) by (simp add: w v_def teleportTrail_sample)
  then have zero: "sample (trailPositions (snd (GlowParticle_update ps rnd n p))) 0 = v"
    using assms(1) by simp
  have comps: "randomScatter rnd n (particleScatterRadius ps)
      = Vector3 ((rnd n - 0.5) * 2 * particleScatterRadius ps)
              ((rnd (n + 1) - 0.5) * 2 * particleScatterRadius ps)
              ((rnd (n + 2) - 0.5) * 2 * particleScatterRadius ps)"
    by (simp add: randomScatter_def)
  have vc: "v = Vector3
                 (vx (getPointAt (path p) 0) + (rnd n - 0.5) * 2 * particleScatterRadius ps)
                 (vy (getPointAt (path p) 0) + (rnd (n + 1) - 0.5) * 2 * particleScatterRadius ps)
                 (vz (getPointAt (path p) 0) + (rnd (n + 2) - 0.5) * 2 * particleScatterRadius ps)"
    by (simp add: v_def randomScatter_def vadd_def)
  have allc: "\<forall>i < trailLength p.
      sample (trailPositions (snd (GlowParticle_update ps rnd n p))) i
        = Vector3
            (vx (getPointAt (path p) 0) + (rnd n - 0.5) * 2 * particleScatterRadius ps)
            (vy (getPointAt (path p) 0) + (rnd (n + 1) - 0.5) * 2 * particleScatterRadius ps)
            (vz (getPointAt (path p) 0) + (rnd (n + 2) - 0.5) * 2 * particleScatterRadius ps)"
    using all unfolding vc .
  have so: "scatterOffset (snd (GlowParticle_update ps rnd n p))
          = randomScatter rnd n (particleScatterRadius ps)"
    by (simp add: w)
  have rest: "fst (GlowParticle_update ps rnd n p) = n + 3
     \<and> currentT (snd (GlowParticle_update ps rnd n p)) = 0
     \<and> path (snd (GlowParticle_update ps rnd n p)) = path p
     \<and> trailLength (snd (GlowParticle_update ps rnd n p)) = trailLength p
     \<and> length (trailPositions (snd (GlowParticle_update ps rnd n p))) = trailLength p * 3"
    using assms(2) by (simp add: w teleportTrail_length)
  have zero2: "sample (trailPositions (snd (GlowParticle_update ps rnd n p))) 0
          = vadd (getPointAt (path p) 0) (scatterOffset (snd (GlowParticle_update ps rnd n p)))"
    using zero by (simp only: so v_def)
  have same: "\<forall>i < trailLength p.
           sample (trailPositions (snd (GlowParticle_update ps rnd n p))) i
             = sample (trailPositions (snd (GlowParticle_update ps rnd n p))) 0"
    using all zero by simp
  have soc: "scatterOffset (snd (GlowParticle_update ps rnd n p))
          = Vector3 ((rnd n - 0.5) * 2 * particleScatterRadius ps)
              ((rnd (n + 1) - 0.5) * 2 * particleScatterRadius ps)
              ((rnd (n + 2) - 0.5) * 2 * particleScatterRadius ps)"
    using so comps by (rule trans)
  from rest so soc zero2 same allc show ?thesis by blast
qed

theorem GlowParticle_update_wrap_teleports_witness:
  "1 \<le> trailLength glow_shifted_example
   \<and> length (trailPositions glow_shifted_example) = trailLength glow_shifted_example * 3
   \<and> 1 \<le> currentT glow_shifted_example
          + glow_speedFactor (glow default_params) * baseSpeedRandomness glow_shifted_example
   \<and> fst (GlowParticle_update default_params ramp_source 1 glow_shifted_example) = 4
   \<and> currentT (snd (GlowParticle_update default_params ramp_source 1 glow_shifted_example)) = 0
   \<and> scatterOffset (snd (GlowParticle_update default_params ramp_source 1 glow_shifted_example))
        = Vector3 (- 0.55) 0 0.55
   \<and> sample (trailPositions
        (snd (GlowParticle_update default_params ramp_source 1 glow_shifted_example))) 0
        = Vector3 0.45 2 3.55
   \<and> sample (trailPositions
        (snd (GlowParticle_update default_params ramp_source 1 glow_shifted_example))) 1
        = Vector3 0.45 2 3.55
   \<and> sample (trailPositions
        (snd (GlowParticle_update default_params ramp_source 1 glow_shifted_example))) 2
        = Vector3 0.45 2 3.55"
proof -
  have h: "1 \<le> trailLength glow_shifted_example"
    "length (trailPositions glow_shifted_example) = trailLength glow_shifted_example * 3"
    "1 \<le> currentT glow_shifted_example
          + glow_speedFactor (glow default_params) * baseSpeedRandomness glow_shifted_example"
    by (simp_all add: glow_shifted_example_def glow_example_def default_params_def)
  have len: "trailLength glow_shifted_example = 3"
    by (simp add: glow_shifted_example_def glow_example_def)
  note t = GlowParticle_update_wrap_teleports [OF h, of ramp_source 1]
  have e1: "Vector3 ((ramp_source 1 - 0.5) * 2 * particleScatterRadius default_params)
              ((ramp_source (1 + 1) - 0.5) * 2 * particleScatterRadius default_params)
              ((ramp_source (1 + 2) - 0.5) * 2 * particleScatterRadius default_params)
            = Vector3 (- 0.55) 0 0.55"
    by (simp add: ramp_source_def default_params_def)
  have e2: "Vector3
              (vx (getPointAt (path glow_shifted_example) 0)
                 + (ramp_source 1 - 0.5) * 2 * particleScatterRadius default_params)
              (vy (getPointAt (path glow_shifted_example) 0)
                 + (ramp_source (1 + 1) - 0.5) * 2 * particleScatterRadius default_params)
              (vz (getPointAt (path glow_shifted_example) 0)
                 + (ramp_source (1 + 2) - 0.5) * 2 * particleScatterRadius default_params)
            = Vector3 0.45 2 3.55"
    by (simp add: ramp_source_def default_params_def glow_shifted_example_def shifted_path_def)
  from t have so0: "scatterOffset
        (snd (GlowParticle_update default_params ramp_source 1 glow_shifted_example))
      = Vector3 ((ramp_source 1 - 0.5) * 2 * particleScatterRadius default_params)
              ((ramp_source (1 + 1) - 0.5) * 2 * particleScatterRadius default_params)
              ((ramp_source (1 + 2) - 0.5) * 2 * particleScatterRadius default_params)"
    by blast
  have so: "scatterOffset (snd (GlowParticle_update default_params ramp_source 1 glow_shifted_example))
        = Vector3 (- 0.55) 0 0.55"
    using so0 e1 by (rule trans)
  from t have sm0: "\<forall>i < trailLength glow_shifted_example. sample (trailPositions
        (snd (GlowParticle_update default_params ramp_source 1 glow_shifted_example))) i
      = Vector3
              (vx (getPointAt (path glow_shifted_example) 0)
                 + (ramp_source 1 - 0.5) * 2 * particleScatterRadius default_params)
              (vy (getPointAt (path glow_shifted_example) 0)
                 + (ramp_source (1 + 1) - 0.5) * 2 * particleScatterRadius default_params)
              (vz (getPointAt (path glow_shifted_example) 0)
                 + (ramp_source (1 + 2) - 0.5) * 2 * particleScatterRadius default_params)"
    by blast
  have sm: "\<forall>i < 3. sample (trailPositions
        (snd (GlowParticle_update default_params ramp_source 1 glow_shifted_example))) i
        = Vector3 0.45 2 3.55"
    using sm0 unfolding e2 len .
  have s0: "sample (trailPositions
        (snd (GlowParticle_update default_params ramp_source 1 glow_shifted_example))) 0
        = Vector3 0.45 2 3.55" using sm by simp
  have s1: "sample (trailPositions
        (snd (GlowParticle_update default_params ramp_source 1 glow_shifted_example))) 1
        = Vector3 0.45 2 3.55" using sm by simp
  have s2: "sample (trailPositions
        (snd (GlowParticle_update default_params ramp_source 1 glow_shifted_example))) 2
        = Vector3 0.45 2 3.55" using sm by simp
  from t have f0: "fst (GlowParticle_update default_params ramp_source 1 glow_shifted_example) = 1 + 3"
    and f1: "currentT (snd (GlowParticle_update default_params ramp_source 1 glow_shifted_example)) = 0"
    by blast+
  have f: "fst (GlowParticle_update default_params ramp_source 1 glow_shifted_example) = 4"
    using f0 by simp
  from h f f1 so s0 s1 s2 show ?thesis by blast
qed

section \<open>The Viviani curve\<close>

lemma createVivianiCurvePoints_nth:
  assumes "i \<le> numPoints"
  shows "createVivianiCurvePoints a numPoints ! i = vivianiPoint a numPoints i"
proof -
  have "i < numPoints + 1" using assms by simp
  then show ?thesis
    unfolding createVivianiCurvePoints_def by (simp only: nth_map_upt) simp
qed

text \<open>
  C7, as the code has it. With scale 5 and a number of points that is a multiple of
  four (main.js asks for 256), the point generated for the curve parameter 0 is
  (10, 0, 0), and the point generated for the curve parameter \<open>\<pi>\<close> is (0, 0, 10):
  there \<open>z = 2 a sin (\<pi> / 2) = 2 a\<close>.
\<close>

theorem createVivianiCurvePoints_samples:
  assumes "0 < k"
  shows "vivianiT (4 * k) 0 = 0
     \<and> createVivianiCurvePoints 5 (4 * k) ! 0 = Vector3 10 0 0
     \<and> vivianiT (4 * k) k = pi
     \<and> createVivianiCurvePoints 5 (4 * k) ! k = Vector3 0 0 10"
proof -
  have t0: "vivianiT (4 * k) 0 = 0" by (simp add: vivianiT_def)
  have tk: "vivianiT (4 * k) k = pi" using assms by (simp add: vivianiT_def)
  have p0: "createVivianiCurvePoints 5 (4 * k) ! 0 = Vector3 10 0 0"
    by (simp add: createVivianiCurvePoints_nth vivianiPoint_def Let_def t0)
  have pk: "createVivianiCurvePoints 5 (4 * k) ! k = Vector3 0 0 10"
    by (simp add: createVivianiCurvePoints_nth vivianiPoint_def Let_def tk)
  from t0 tk p0 pk show ?thesis by simp
qed

theorem createVivianiCurvePoints_samples_witness:
  "(0::nat) < 64
   \<and> vivianiT 256 64 = pi
   \<and> createVivianiCurvePoints 5 256 ! 0 = Vector3 10 0 0
   \<and> createVivianiCurvePoints 5 256 ! 64 = Vector3 0 0 10"
proof -
  have h: "(0::nat) < 64" by simp
  from createVivianiCurvePoints_samples [OF h] show ?thesis by simp
qed

text \<open>The claim as the specification words it fails: the point at the curve
  parameter \<open>\<pi>\<close> is not the origin.\<close>

theorem createVivianiCurvePoints_pi_counterexample:
  "vivianiT 256 64 = pi
   \<and> createVivianiCurvePoints 5 256 ! 64 = Vector3 0 0 10
   \<and> createVivianiCurvePoints 5 256 ! 64 \<noteq> Vector3 0 0 0"
proof -
  have t: "vivianiT 256 64 = pi" by (simp add: vivianiT_def)
  have "createVivianiCurvePoints 5 256 ! 64 = vivianiPoint 5 256 64"
    by (rule createVivianiCurvePoints_nth) simp
  also have "\<dots> = Vector3 0 0 10"
    by (simp add: vivianiPoint_def Let_def t)
  finally have p: "createVivianiCurvePoints 5 256 ! 64 = Vector3 0 0 10" .
  from t p show ?thesis by simp
qed

section \<open>Colour assignment\<close>

lemma randomIndex_less:
  assumes "0 \<le> r" and "r < 1" and "0 < len"
  shows "randomIndex r len < len"
proof -
  have "r * real len < real len" using assms by simp
  then have "\<lfloor>r * real len\<rfloor> < int len" by (simp add: floor_less_iff)
  moreover have "0 \<le> \<lfloor>r * real len\<rfloor>" using assms by simp
  ultimately show ?thesis unfolding randomIndex_def by linarith
qed

lemma randomIndex_eq_iff:
  assumes "0 \<le> r" and "0 < len"
  shows "randomIndex r len = k \<longleftrightarrow> real k / real len \<le> r \<and> r < (real k + 1) / real len"
proof -
  have nn: "0 \<le> \<lfloor>r * real len\<rfloor>" using assms by simp
  have "randomIndex r len = k \<longleftrightarrow> \<lfloor>r * real len\<rfloor> = int k"
    using nn by (auto simp add: randomIndex_def)
  also have "\<dots> \<longleftrightarrow> real k \<le> r * real len \<and> r * real len < real k + 1"
    by (simp add: floor_eq_iff)
  also have "\<dots> \<longleftrightarrow> real k / real len \<le> r \<and> r < (real k + 1) / real len"
    using assms by (simp add: pos_divide_le_eq pos_less_divide_eq)
  finally show ?thesis .
qed

lemma set_activePalette:
  "set (activePalette ps) =
     {c. (paletteColor1Enabled ps \<and> c = paletteColor1 ps)
       \<or> (paletteColor2Enabled ps \<and> c = paletteColor2 ps)
       \<or> (paletteColor3Enabled ps \<and> c = paletteColor3 ps)
       \<or> (paletteColor4Enabled ps \<and> c = paletteColor4 ps)
       \<or> (paletteColor5Enabled ps \<and> c = paletteColor5 ps)}"
  by (auto simp add: activePalette_def)


text \<open>
  C9, as the code has it. For a draw \<open>r\<close> in [0,1): in the dark theme and palette mode
  (params.colorMode for a glow particle, params.comet.colorMode for a comet) the
  colour assigned is the enabled palette colour of index \<open>floor (r * k)\<close> among the
  \<open>k\<close> enabled ones, so a colour that is not enabled is never assigned and each
  enabled colour is picked on an interval of draws of length \<open>1 / k\<close>; with no colour
  enabled a glow particle gets the fixed \<^verbatim>\<open>#ffffff\<close> and a comet gets the
  configured params.comet.cometColor; in the light theme the colour of the theme is
  assigned whatever the mode.
\<close>

theorem palette_color_assignment:
  assumes "0 \<le> rnd n" and "rnd n < 1"
  shows "(currentTheme ps \<noteq> ''light'' \<and> colorMode ps = ''palette'' \<and> activePalette ps \<noteq> [] \<longrightarrow>
            color (snd (setParticleColor ps rnd n p))
              = ColorString (activePalette ps ! randomIndex (rnd n) (length (activePalette ps))))
     \<and> (currentTheme ps \<noteq> ''light'' \<and> colorMode ps = ''palette'' \<and> activePalette ps = [] \<longrightarrow>
            color (snd (setParticleColor ps rnd n p)) = ColorString ''#ffffff'')
     \<and> (currentTheme ps = ''light'' \<longrightarrow>
            color (snd (setParticleColor ps rnd n p)) = ColorHex 0x222222)
     \<and> (currentTheme ps \<noteq> ''light'' \<and> comet_colorMode (comet ps) = ''palette''
          \<and> activePalette ps \<noteq> [] \<longrightarrow>
            hm_cometColor (headMaterial (snd (setCometColor ps rnd n c)))
              = ColorString (activePalette ps ! randomIndex (rnd n) (length (activePalette ps)))
            \<and> tm_cometColor (tailMaterial (snd (setCometColor ps rnd n c)))
              = ColorString (activePalette ps ! randomIndex (rnd n) (length (activePalette ps))))
     \<and> (currentTheme ps \<noteq> ''light'' \<and> comet_colorMode (comet ps) = ''palette''
          \<and> activePalette ps = [] \<longrightarrow>
            hm_cometColor (headMaterial (snd (setCometColor ps rnd n c)))
              = ColorString (cometColor (comet ps))
            \<and> tm_cometColor (tailMaterial (snd (setCometColor ps rnd n c)))
              = ColorString (cometColor (comet ps)))
     \<and> (currentTheme ps = ''light'' \<longrightarrow>
            hm_cometColor (headMaterial (snd (setCometColor ps rnd n c))) = ColorHex 0x0066cc
            \<and> tm_cometColor (tailMaterial (snd (setCometColor ps rnd n c))) = ColorHex 0x0066cc)
     \<and> (activePalette ps \<noteq> [] \<longrightarrow>
            randomIndex (rnd n) (length (activePalette ps)) < length (activePalette ps)
            \<and> activePalette ps ! randomIndex (rnd n) (length (activePalette ps))
                \<in> set (activePalette ps))
     \<and> set (activePalette ps) =
          {col. (paletteColor1Enabled ps \<and> col = paletteColor1 ps)
              \<or> (paletteColor2Enabled ps \<and> col = paletteColor2 ps)
              \<or> (paletteColor3Enabled ps \<and> col = paletteColor3 ps)
              \<or> (paletteColor4Enabled ps \<and> col = paletteColor4 ps)
              \<or> (paletteColor5Enabled ps \<and> col = paletteColor5 ps)}
     \<and> (\<forall>k. activePalette ps \<noteq> [] \<longrightarrow>
            (randomIndex (rnd n) (length (activePalette ps)) = k
              \<longleftrightarrow> real k / real (length (activePalette ps)) \<le> rnd n
                  \<and> rnd n < (real k + 1) / real (length (activePalette ps))))"
proof -
  have g1: "currentTheme ps \<noteq> ''light'' \<and> colorMode ps = ''palette'' \<and> activePalette ps \<noteq> [] \<longrightarrow>
            color (snd (setParticleColor ps rnd n p))
              = ColorString (activePalette ps ! randomIndex (rnd n) (length (activePalette ps)))"
    by (simp add: setParticleColor_def)
  have g2: "currentTheme ps \<noteq> ''light'' \<and> colorMode ps = ''palette'' \<and> activePalette ps = [] \<longrightarrow>
            color (snd (setParticleColor ps rnd n p)) = ColorString ''#ffffff''"
    by (simp add: setParticleColor_def)
  have g3: "currentTheme ps = ''light'' \<longrightarrow>
            color (snd (setParticleColor ps rnd n p)) = ColorHex 0x222222"
    by (simp add: setParticleColor_def)
  have c1: "currentTheme ps \<noteq> ''light'' \<and> comet_colorMode (comet ps) = ''palette''
          \<and> activePalette ps \<noteq> [] \<longrightarrow>
            hm_cometColor (headMaterial (snd (setCometColor ps rnd n c)))
              = ColorString (activePalette ps ! randomIndex (rnd n) (length (activePalette ps)))
            \<and> tm_cometColor (tailMaterial (snd (setCometColor ps rnd n c)))
              = ColorString (activePalette ps ! randomIndex (rnd n) (length (activePalette ps)))"
    by (simp add: setCometColor_def)
  have c2: "currentTheme ps \<noteq> ''light'' \<and> comet_colorMode (comet ps) = ''palette''
          \<and> activePalette ps = [] \<longrightarrow>
            hm_cometColor (headMaterial (snd (setCometColor ps rnd n c)))
              = ColorString (cometColor (comet ps))
            \<and> tm_cometColor (tailMaterial (snd (setCometColor ps rnd n c)))
              = ColorString (cometColor (comet ps))"
    by (simp add: setCometColor_def)
  have c3: "currentTheme ps = ''light'' \<longrightarrow>
            hm_cometColor (headMaterial (snd (setCometColor ps rnd n c))) = ColorHex 0x0066cc
            \<and> tm_cometColor (tailMaterial (snd (setCometColor ps rnd n c))) = ColorHex 0x0066cc"
    by (simp add: setCometColor_def)
  have i1: "activePalette ps \<noteq> [] \<longrightarrow>
            randomIndex (rnd n) (length (activePalette ps)) < length (activePalette ps)
            \<and> activePalette ps ! randomIndex (rnd n) (length (activePalette ps))
                \<in> set (activePalette ps)"
    using assms by (simp add: randomIndex_less)
  have i2: "\<forall>k. activePalette ps \<noteq> [] \<longrightarrow>
            (randomIndex (rnd n) (length (activePalette ps)) = k
              \<longleftrightarrow> real k / real (length (activePalette ps)) \<le> rnd n
                  \<and> rnd n < (real k + 1) / real (length (activePalette ps)))"
    using assms(1) by (simp add: randomIndex_eq_iff)
  from g1 g2 g3 c1 c2 c3 i1 i2 set_activePalette [of ps] show ?thesis
    by blast
qed

theorem palette_color_assignment_witness:
  "(0::real) \<le> 3 / 4 \<and> (3 / 4 :: real) < 1
   \<and> activePalette (palette_params True False True False False) = [''#667fff'', ''#ffc21a'']
   \<and> color (snd (setParticleColor (palette_params True False True False False)
        (\<lambda>n. 3 / 4) 0 glow_example)) = ColorString ''#ffc21a''
   \<and> hm_cometColor (headMaterial (snd (setCometColor (palette_params True False True False False)
        (\<lambda>n. 3 / 4) 0 comet_example))) = ColorString ''#ffc21a''
   \<and> color (snd (setParticleColor (palette_params False False False False False)
        (\<lambda>n. 3 / 4) 0 glow_example)) = ColorString ''#ffffff''
   \<and> randomIndex (3 / 4) 2 = 1"
proof -
  have a: "activePalette (palette_params True False True False False) = [''#667fff'', ''#ffc21a'']"
    by (simp add: activePalette_def palette_params_def default_params_def)
  have e: "activePalette (palette_params False False False False False) = []"
    by (simp add: activePalette_def palette_params_def)
  have m: "currentTheme (palette_params e1 e2 e3 e4 e5) \<noteq> ''light''"
    "colorMode (palette_params e1 e2 e3 e4 e5) = ''palette''"
    "comet_colorMode (comet (palette_params e1 e2 e3 e4 e5)) = ''palette''"
    for e1 e2 e3 e4 e5
    by (simp_all add: palette_params_def default_params_def)
  have r: "randomIndex (3 / 4) 2 = 1" by (simp add: randomIndex_def)
  have r': "randomIndex (3 / 4) (Suc (Suc 0)) = Suc 0" by (simp add: randomIndex_def)
  from palette_color_assignment [where rnd = "\<lambda>n. 3 / 4" and n = 0
      and ps = "palette_params True False True False False"
      and p = glow_example and c = comet_example]
  have "color (snd (setParticleColor (palette_params True False True False False)
        (\<lambda>n. 3 / 4) 0 glow_example)) = ColorString ''#ffc21a''
     \<and> hm_cometColor (headMaterial (snd (setCometColor (palette_params True False True False False)
        (\<lambda>n. 3 / 4) 0 comet_example))) = ColorString ''#ffc21a''"
    by (simp add: a m r')
  moreover from palette_color_assignment [where rnd = "\<lambda>n. 3 / 4" and n = 0
      and ps = "palette_params False False False False False"
      and p = glow_example and c = comet_example]
  have "color (snd (setParticleColor (palette_params False False False False False)
        (\<lambda>n. 3 / 4) 0 glow_example)) = ColorString ''#ffffff''"
    by (simp add: e m)
  ultimately show ?thesis using a r by simp
qed

text \<open>
  The claim as the specification words it fails twice. A comet in palette mode with
  no palette colour enabled is given the configured comet colour, which is not a fixed
  colour: two configurations that differ in it alone give two colours. And a glow
  particle in palette mode under the light theme, with colours 1 and 3 enabled, is
  given the colour of the theme, which is not an enabled palette colour.
\<close>

theorem palette_color_counterexample:
  "activePalette (palette_params False False False False False) = []
   \<and> hm_cometColor (headMaterial (snd (setCometColor
        (palette_params False False False False False) (\<lambda>n. 3 / 4) 0 comet_example)))
       = ColorString ''#80ffff''
   \<and> hm_cometColor (headMaterial (snd (setCometColor
        ((palette_params False False False False False)
           \<lparr>comet := (comet (palette_params False False False False False))
              \<lparr>cometColor := ''#ff0000''\<rparr>\<rparr>) (\<lambda>n. 3 / 4) 0 comet_example)))
       = ColorString ''#ff0000''
   \<and> colorMode ((palette_params True False True False False)\<lparr>currentTheme := ''light''\<rparr>)
       = ''palette''
   \<and> color (snd (setParticleColor
        ((palette_params True False True False False)\<lparr>currentTheme := ''light''\<rparr>)
        (\<lambda>n. 3 / 4) 0 glow_example)) = ColorHex 0x222222"
  by (simp add: setCometColor_def setParticleColor_def activePalette_def palette_params_def
      default_params_def)

section \<open>The pool of a welding spark\<close>

lemma emitOne_fields:
  "fst (emitOne ps rnd origin tangent n s) = n + 5"
  "maxLife (snd (emitOne ps rnd origin tangent n s)) = maxLife s"
  "length (positions (snd (emitOne ps rnd origin tangent n s))) = length (positions s)"
  "length (sizes (snd (emitOne ps rnd origin tangent n s))) = length (sizes s)"
  "length (sparkLives (snd (emitOne ps rnd origin tangent n s))) = length (sparkLives s)"
  "activeParticles (snd (emitOne ps rnd origin tangent n s)) = activeParticles s + 1"
  "baseSpeedRandomness (snd (emitOne ps rnd origin tangent n s)) = baseSpeedRandomness s"
  "currentT (snd (emitOne ps rnd origin tangent n s)) = currentT s"
  "lifecycleOffset (snd (emitOne ps rnd origin tangent n s)) = lifecycleOffset s"
  "speed (snd (emitOne ps rnd origin tangent n s)) = speed s"
  "path (snd (emitOne ps rnd origin tangent n s)) = path s"
  "lifecycleAlpha (snd (emitOne ps rnd origin tangent n s)) = lifecycleAlpha s"
  by (simp_all add: emitOne_def Let_def)

lemma emitOne_velocities:
  "velocities (snd (emitOne ps rnd origin tangent n s)) i \<noteq> None
     \<longleftrightarrow> i = activeParticles s \<or> velocities s i \<noteq> None"
  by (simp add: emitOne_def Let_def)

lemma emitOne_wf:
  assumes "spark_wf s" and "activeParticles s < maxLife s * 3"
  shows "spark_wf (snd (emitOne ps rnd origin tangent n s))"
proof -
  have v: "\<forall>i < activeParticles s + 1. velocities (snd (emitOne ps rnd origin tangent n s)) i \<noteq> None"
  proof (intro allI impI)
    fix i assume "i < activeParticles s + 1"
    then have "i = activeParticles s \<or> i < activeParticles s" by arith
    moreover have "\<forall>i < activeParticles s. velocities s i \<noteq> None"
      using assms(1) by (simp add: spark_wf_def)
    ultimately show "velocities (snd (emitOne ps rnd origin tangent n s)) i \<noteq> None"
      unfolding emitOne_velocities by blast
  qed
  have "activeParticles s + 1 \<le> maxLife s * 3" using assms(2) by simp
  with v assms(1) show ?thesis
    unfolding spark_wf_def emitOne_fields by blast
qed

lemma poolFull_iff:
  assumes "spark_wf s"
  shows "poolFull s \<longleftrightarrow> activeParticles s = maxLife s * 3"
proof -
  have "real (length (positions s)) / 3 = real (maxLife s * 3)"
    using assms by (simp add: spark_wf_def)
  moreover have "activeParticles s \<le> maxLife s * 3"
    using assms by (simp add: spark_wf_def)
  ultimately show ?thesis unfolding poolFull_def by auto
qed

lemma emitLoop_wf:
  assumes "spark_wf (snd st)"
  shows "spark_wf (snd (emitLoop ps rnd origin tangent k st))"
  using assms
proof (induction k arbitrary: st)
  case 0
  then show ?case by simp
next
  case (Suc k)
  show ?case
  proof (cases "poolFull (snd st)")
    case True
    with Suc.prems show ?thesis by simp
  next
    case False
    with Suc.prems have "activeParticles (snd st) \<noteq> maxLife (snd st) * 3"
      by (simp add: poolFull_iff)
    with Suc.prems have lt: "activeParticles (snd st) < maxLife (snd st) * 3"
      by (simp add: spark_wf_def)
    have "spark_wf (snd (emitOne ps rnd origin tangent (fst st) (snd st)))"
      using Suc.prems lt by (rule emitOne_wf)
    then have "spark_wf (snd (emitLoop ps rnd origin tangent k
                 (emitOne ps rnd origin tangent (fst st) (snd st))))"
      by (rule Suc.IH)
    with False show ?thesis by simp
  qed
qed

lemma emitLoop_fields:
  "maxLife (snd (emitLoop ps rnd origin tangent k st)) = maxLife (snd st)
   \<and> baseSpeedRandomness (snd (emitLoop ps rnd origin tangent k st)) = baseSpeedRandomness (snd st)
   \<and> currentT (snd (emitLoop ps rnd origin tangent k st)) = currentT (snd st)
   \<and> lifecycleOffset (snd (emitLoop ps rnd origin tangent k st)) = lifecycleOffset (snd st)
   \<and> speed (snd (emitLoop ps rnd origin tangent k st)) = speed (snd st)
   \<and> path (snd (emitLoop ps rnd origin tangent k st)) = path (snd st)
   \<and> lifecycleAlpha (snd (emitLoop ps rnd origin tangent k st)) = lifecycleAlpha (snd st)
   \<and> length (positions (snd (emitLoop ps rnd origin tangent k st))) = length (positions (snd st))
   \<and> length (sizes (snd (emitLoop ps rnd origin tangent k st))) = length (sizes (snd st))
   \<and> length (sparkLives (snd (emitLoop ps rnd origin tangent k st))) = length (sparkLives (snd st))"
  by (induction k arbitrary: st) (simp_all add: emitOne_fields)

lemma emitLoop_full:
  assumes "poolFull (snd st)"
  shows "emitLoop ps rnd origin tangent k st = st"
  using assms by (cases k) simp_all

lemma emitSparks_wf:
  assumes "spark_wf s"
  shows "spark_wf (snd (emitSparks ps rnd n s))"
proof -
  have "spark_wf (snd (emitLoop ps rnd
          (vadd (getPointAt (path s) (currentT s)) (scatterOffset s))
          (vnormalize (getTangentAt (path s) (currentT s)))
          (nat \<lfloor>2 + rnd n * 5\<rfloor>) (n + 1, s)))"
    by (rule emitLoop_wf) (simp add: assms)
  then show ?thesis
    by (simp add: emitSparks_def Let_def spark_wf_def)
qed

lemma emitSparks_fields:
  "maxLife (snd (emitSparks ps rnd n s)) = maxLife s"
  "baseSpeedRandomness (snd (emitSparks ps rnd n s)) = baseSpeedRandomness s"
  "currentT (snd (emitSparks ps rnd n s)) = currentT s"
  "lifecycleOffset (snd (emitSparks ps rnd n s)) = lifecycleOffset s"
  "speed (snd (emitSparks ps rnd n s)) = speed s"
  "path (snd (emitSparks ps rnd n s)) = path s"
  "lifecycleAlpha (snd (emitSparks ps rnd n s)) = lifecycleAlpha s"
  "length (positions (snd (emitSparks ps rnd n s))) = length (positions s)"
  "length (sizes (snd (emitSparks ps rnd n s))) = length (sizes s)"
  "length (sparkLives (snd (emitSparks ps rnd n s))) = length (sparkLives s)"
  "drawRange (snd (emitSparks ps rnd n s)) = (0, activeParticles (snd (emitSparks ps rnd n s)))"
  by (simp_all add: emitSparks_def Let_def emitLoop_fields)

lemma emitSparks_full:
  assumes "spark_wf s" and "activeParticles s = maxLife s * 3"
  shows "emitSparks ps rnd n s = (n + 1, s\<lparr>drawRange := (0, activeParticles s)\<rparr>)"
proof -
  have "poolFull (snd (n + 1, s))"
    using assms by (simp add: poolFull_iff)
  then have "emitLoop ps rnd (vadd (getPointAt (path s) (currentT s)) (scatterOffset s))
          (vnormalize (getTangentAt (path s) (currentT s)))
          (nat \<lfloor>2 + rnd n * 5\<rfloor>) (n + 1, s) = (n + 1, s)"
    by (rule emitLoop_full)
  then show ?thesis by (simp add: emitSparks_def Let_def)
qed

lemma WeldingSpark_new_wf: "spark_wf (snd (WeldingSpark_new ps rnd n pth opts))"
  unfolding WeldingSpark_new_def Let_def
  by (rule emitSparks_wf) (simp add: spark_wf_def)

lemma WeldingSpark_new_maxLife:
  "maxLife (snd (WeldingSpark_new ps rnd n pth opts)) = sopt_trailLength opts"
  by (simp add: WeldingSpark_new_def Let_def emitSparks_fields)


lemma spark_frame_refl: "spark_frame s s"
  by (simp add: spark_frame_def)

lemma spark_frame_trans:
  assumes "spark_frame s t" and "spark_frame t u"
  shows "spark_frame s u"
  using assms unfolding spark_frame_def by auto

lemma sparkStep_frame:
  assumes "velocities s i \<noteq> None"
  shows "\<exists>a' s'. sparkStep rnd i (n, a, s) = Inr (n + 1, a', s')
           \<and> a \<le> a' \<and> a' \<le> a + 1 \<and> spark_frame s s'"
proof -
  from assms obtain v where v: "velocities s i = Some v" by auto
  show ?thesis
  proof (cases "0 < (sparkLives s)[i := sparkLives s ! i - lifeDecrement rnd n] ! i")
    case True
    then show ?thesis
      using v by (simp add: sparkStep_def Let_def spark_frame_def movedPositions_def
          copiedPositions_def)
  next
    case False
    then show ?thesis
      using v by (simp add: sparkStep_def Let_def spark_frame_def)
  qed
qed

lemma sparkLoop_frame:
  assumes "\<forall>i \<in> set js. velocities s i \<noteq> None"
  shows "\<exists>a' s'. sparkLoop rnd js (n, a, s) = Inr (n + length js, a', s')
           \<and> a \<le> a' \<and> a' \<le> a + length js \<and> spark_frame s s'"
  using assms
proof (induction js arbitrary: n a s)
  case Nil
  then show ?case by (simp add: spark_frame_refl)
next
  case (Cons i js)
  from Cons.prems have "velocities s i \<noteq> None" by simp
  from sparkStep_frame [OF this, of rnd n a]
  obtain a1 s1 where st: "sparkStep rnd i (n, a, s) = Inr (n + 1, a1, s1)"
    and a1: "a \<le> a1" "a1 \<le> a + 1" and f1: "spark_frame s s1"
    by blast
  have "\<forall>j \<in> set js. velocities s1 j \<noteq> None"
    using Cons.prems f1 by (simp add: spark_frame_def)
  from Cons.IH [OF this, of "n + 1" a1]
  obtain a2 s2 where lp: "sparkLoop rnd js (n + 1, a1, s1) = Inr (n + 1 + length js, a2, s2)"
    and a2: "a1 \<le> a2" "a2 \<le> a1 + length js" and f2: "spark_frame s1 s2"
    by blast
  have "sparkLoop rnd (i # js) (n, a, s) = Inr (n + length (i # js), a2, s2)"
    using st lp by simp
  moreover have "a \<le> a2" "a2 \<le> a + length (i # js)" using a1 a2 by simp_all
  moreover have "spark_frame s s2" using f1 f2 by (rule spark_frame_trans)
  ultimately show ?case by blast
qed

lemma WeldingSpark_advance_wf:
  assumes "spark_wf s"
  shows "spark_wf (snd (WeldingSpark_advance ps rnd n s))
         \<and> maxLife (snd (WeldingSpark_advance ps rnd n s)) = maxLife s
         \<and> baseSpeedRandomness (snd (WeldingSpark_advance ps rnd n s)) = baseSpeedRandomness s
         \<and> speed (snd (WeldingSpark_advance ps rnd n s))
             = spark_speedFactor (weldingSpark ps) * baseSpeedRandomness s"
proof -
  define s1 where "s1 = s\<lparr>speed := spark_speedFactor (weldingSpark ps) * baseSpeedRandomness s,
     currentT := currentT s + spark_speedFactor (weldingSpark ps) * baseSpeedRandomness s\<rparr>"
  define s2 where "s2 = (if currentT s1 \<ge> 1 then
      s1\<lparr>currentT := 0, scatterOffset := randomScatter rnd n (particleScatterRadius ps)\<rparr> else s1)"
  define n2 where "n2 = (if currentT s1 \<ge> 1 then n + 3 else n)"
  have w2: "spark_wf s2" using assms by (simp add: s2_def s1_def spark_wf_def)
  have f2: "maxLife s2 = maxLife s" "baseSpeedRandomness s2 = baseSpeedRandomness s"
    "speed s2 = spark_speedFactor (weldingSpark ps) * baseSpeedRandomness s"
    by (simp_all add: s2_def s1_def)
  have adv: "WeldingSpark_advance ps rnd n s =
      (if rnd n2 > 0.7 then emitSparks ps rnd (n2 + 1) s2 else (n2 + 1, s2))"
    by (simp add: WeldingSpark_advance_def Let_def s1_def s2_def n2_def)
  show ?thesis
  proof (cases "rnd n2 > 0.7")
    case True
    with adv have "WeldingSpark_advance ps rnd n s = emitSparks ps rnd (n2 + 1) s2" by simp
    with w2 f2 show ?thesis by (simp add: emitSparks_wf emitSparks_fields)
  next
    case False
    with adv have "WeldingSpark_advance ps rnd n s = (n2 + 1, s2)" by simp
    with w2 f2 show ?thesis by simp
  qed
qed

lemma WeldingSpark_update_wf:
  assumes "spark_wf s"
  shows "\<exists>n' s'. WeldingSpark_update ps rnd n s = Inr (n', s')
           \<and> spark_wf s' \<and> maxLife s' = maxLife s
           \<and> activeParticles s' \<le> activeParticles (snd (WeldingSpark_advance ps rnd n s))
           \<and> drawRange s' = (0, activeParticles s')
           \<and> baseSpeedRandomness s' = baseSpeedRandomness s
           \<and> speed s' = spark_speedFactor (weldingSpark ps) * baseSpeedRandomness s"
proof -
  define st3 where "st3 = WeldingSpark_advance ps rnd n s"
  have w3: "spark_wf (snd st3)" and m3: "maxLife (snd st3) = maxLife s"
    and b3: "baseSpeedRandomness (snd st3) = baseSpeedRandomness s"
    and sp3: "speed (snd st3) = spark_speedFactor (weldingSpark ps) * baseSpeedRandomness s"
    using WeldingSpark_advance_wf [OF assms, of ps rnd n] by (simp_all add: st3_def)
  have "\<forall>i \<in> set [0..<activeParticles (snd st3)]. velocities (snd st3) i \<noteq> None"
    using w3 by (simp add: spark_wf_def)
  from sparkLoop_frame [OF this, of rnd "fst st3" 0]
  obtain a4 s4 where lp: "sparkLoop rnd [0..<activeParticles (snd st3)] (fst st3, 0, snd st3)
        = Inr (fst st3 + length [0..<activeParticles (snd st3)], a4, s4)"
    and a4: "a4 \<le> 0 + length [0..<activeParticles (snd st3)]"
    and f4: "spark_frame (snd st3) s4"
    by blast
  define s5 where "s5 = s4\<lparr>activeParticles := a4, drawRange := (0, a4)\<rparr>"
  have upd: "WeldingSpark_update ps rnd n s
      = Inr (fst st3 + length [0..<activeParticles (snd st3)], s5)"
    using lp by (simp add: WeldingSpark_update_def Let_def st3_def [symmetric] s5_def)
  have le: "a4 \<le> activeParticles (snd st3)" using a4 by simp
  have w5: "spark_wf s5"
    using w3 f4 le unfolding spark_wf_def spark_frame_def s5_def by auto
  have "maxLife s5 = maxLife s" "activeParticles s5 \<le> activeParticles (snd st3)"
    "drawRange s5 = (0, activeParticles s5)" "baseSpeedRandomness s5 = baseSpeedRandomness s"
    "speed s5 = spark_speedFactor (weldingSpark ps) * baseSpeedRandomness s"
    using f4 m3 le b3 sp3 by (simp_all add: s5_def spark_frame_def)
  with upd w5 show ?thesis unfolding st3_def by blast
qed

lemma runCalls_wf:
  assumes "spark_wf (snd st)"
  shows "\<exists>st'. runCalls rnd calls st = Inr st' \<and> spark_wf (snd st')
           \<and> maxLife (snd st') = maxLife (snd st)
           \<and> baseSpeedRandomness (snd st') = baseSpeedRandomness (snd st)"
  using assms
proof (induction calls arbitrary: st)
  case Nil
  then show ?case by simp
next
  case (Cons c calls)
  show ?case
  proof (cases c)
    case (CallEmitSparks ps)
    define st1 where "st1 = emitSparks ps rnd (fst st) (snd st)"
    have "spark_wf (snd st1)" using Cons.prems by (simp add: st1_def emitSparks_wf)
    from Cons.IH [OF this] obtain st' where "runCalls rnd calls st1 = Inr st'"
      "spark_wf (snd st')" "maxLife (snd st') = maxLife (snd st1)"
      "baseSpeedRandomness (snd st') = baseSpeedRandomness (snd st1)" by blast
    then show ?thesis
      using CallEmitSparks by (simp add: st1_def emitSparks_fields)
  next
    case (CallUpdate ps)
    from WeldingSpark_update_wf [OF Cons.prems, of ps rnd "fst st"]
    obtain n1 s1 where u: "WeldingSpark_update ps rnd (fst st) (snd st) = Inr (n1, s1)"
      and w1: "spark_wf s1" and m1: "maxLife s1 = maxLife (snd st)"
      and b1: "baseSpeedRandomness s1 = baseSpeedRandomness (snd st)" by blast
    have "spark_wf (snd (n1, s1))" using w1 by simp
    from Cons.IH [OF this] obtain st' where "runCalls rnd calls (n1, s1) = Inr st'"
      "spark_wf (snd st')" "maxLife (snd st') = maxLife (snd (n1, s1))"
      "baseSpeedRandomness (snd st') = baseSpeedRandomness (snd (n1, s1))" by blast
    then show ?thesis
      using CallUpdate u m1 b1 by simp
  qed
qed

text \<open>
  C4. From the constructor on, every sequence of calls of emitSparks and update returns
  without an error and leaves the count of live sparks at most \<open>3 \<times> trailLength\<close>,
  with the three pool arrays at the length the constructor gave them; and an emission
  into a full pool changes nothing but the draw range, which it sets to the count: it
  consumes the one draw of the number of sparks and stores no spark.
\<close>

theorem WeldingSpark_pool_capacity:
  "(\<exists>st'. runCalls rnd calls (WeldingSpark_new ps rnd n pth opts) = Inr st'
       \<and> activeParticles (snd st') \<le> 3 * sopt_trailLength opts
       \<and> length (positions (snd st')) = 3 * (3 * sopt_trailLength opts)
       \<and> length (sizes (snd st')) = 3 * sopt_trailLength opts
       \<and> length (sparkLives (snd st')) = 3 * sopt_trailLength opts)
   \<and> (spark_wf s \<and> activeParticles s = 3 * maxLife s \<longrightarrow>
         emitSparks ps1 rnd m s = (m + 1, s\<lparr>drawRange := (0, activeParticles s)\<rparr>))"
proof -
  have "spark_wf (snd (WeldingSpark_new ps rnd n pth opts))"
    by (rule WeldingSpark_new_wf)
  from runCalls_wf [OF this, of rnd calls]
  obtain st' where r: "runCalls rnd calls (WeldingSpark_new ps rnd n pth opts) = Inr st'"
    and w: "spark_wf (snd st')"
    and ml: "maxLife (snd st') = sopt_trailLength opts"
    by (auto simp add: WeldingSpark_new_maxLife)
  have "activeParticles (snd st') \<le> 3 * sopt_trailLength opts"
    "length (positions (snd st')) = 3 * (3 * sopt_trailLength opts)"
    "length (sizes (snd st')) = 3 * sopt_trailLength opts"
    "length (sparkLives (snd st')) = 3 * sopt_trailLength opts"
    using w ml by (simp_all add: spark_wf_def)
  with r have first: "\<exists>st'. runCalls rnd calls (WeldingSpark_new ps rnd n pth opts) = Inr st'
       \<and> activeParticles (snd st') \<le> 3 * sopt_trailLength opts
       \<and> length (positions (snd st')) = 3 * (3 * sopt_trailLength opts)
       \<and> length (sizes (snd st')) = 3 * sopt_trailLength opts
       \<and> length (sparkLives (snd st')) = 3 * sopt_trailLength opts"
    by blast
  have second: "spark_wf s \<and> activeParticles s = 3 * maxLife s \<longrightarrow>
         emitSparks ps1 rnd m s = (m + 1, s\<lparr>drawRange := (0, activeParticles s)\<rparr>)"
    by (simp add: emitSparks_full)
  from first second show ?thesis by blast
qed

theorem WeldingSpark_pool_capacity_witness:
  "(\<exists>st'. runCalls (\<lambda>n. 3 / 4)
        [CallUpdate default_params, CallEmitSparks default_params, CallUpdate default_params]
        (WeldingSpark_new default_params (\<lambda>n. 3 / 4) 0 (line_path False) spark_options_example)
          = Inr st'
       \<and> activeParticles (snd st') \<le> 48
       \<and> length (positions (snd st')) = 144)
   \<and> spark_wf spark_three \<and> activeParticles spark_three = 3 * maxLife spark_three
   \<and> emitSparks default_params (\<lambda>n. 3 / 4) 7 spark_three
       = (8, spark_three\<lparr>drawRange := (0, 3)\<rparr>)"
proof -
  have h: "spark_wf spark_three \<and> activeParticles spark_three = 3 * maxLife spark_three"
    by (simp add: spark_wf_def spark_three_def)
  have a: "activeParticles spark_three = 3" by (simp add: spark_three_def)
  have t: "sopt_trailLength spark_options_example = 16" by (simp add: spark_options_example_def)
  from WeldingSpark_pool_capacity [of "\<lambda>n. 3 / 4"
      "[CallUpdate default_params, CallEmitSparks default_params, CallUpdate default_params]"
      default_params 0 "line_path False" spark_options_example spark_three default_params 7]
    h a t
  show ?thesis by auto
qed


section \<open>The compaction of the pool\<close>

lemma stride3_neq:
  assumes "(i::nat) \<noteq> j"
  shows "i * 3 \<noteq> j * 3" "i * 3 \<noteq> j * 3 + 1" "i * 3 \<noteq> j * 3 + 2"
    "i * 3 + 1 \<noteq> j * 3" "i * 3 + 1 \<noteq> j * 3 + 1" "i * 3 + 1 \<noteq> j * 3 + 2"
    "i * 3 + 2 \<noteq> j * 3" "i * 3 + 2 \<noteq> j * 3 + 1" "i * 3 + 2 \<noteq> j * 3 + 2"
  using assms by presburger+

lemma sample_update_other:
  assumes "i \<noteq> j"
  shows "sample (arr[j * 3 := x]) i = sample arr i"
    and "sample (arr[j * 3 + 1 := x]) i = sample arr i"
    and "sample (arr[j * 3 + 2 := x]) i = sample arr i"
  using stride3_neq [OF assms] by (simp_all add: sample_def)

lemma sparkStep_dead:
  assumes "\<not> 0 < (sparkLives s)[i := sparkLives s ! i - lifeDecrement rnd n] ! i"
  shows "sparkStep rnd i (n, a, s)
     = Inr (n + 1, a, s\<lparr>sparkLives := (sparkLives s)[i := sparkLives s ! i - lifeDecrement rnd n]\<rparr>)"
  using assms by (simp add: sparkStep_def Let_def)

lemma sparkStep_dead_slot:
  assumes "j \<noteq> i"
  shows "slot (s\<lparr>sparkLives := (sparkLives s)[i := x]\<rparr>) j = slot s j"
  using assms by (simp add: slot_def)

lemma movedPositions_length: "length (movedPositions arr i v) = length arr"
  by (simp add: movedPositions_def Let_def)

lemma copiedPositions_length: "length (copiedPositions arr a i) = length arr"
  by (simp add: copiedPositions_def Let_def)

lemma movedPositions_same:
  assumes "i * 3 + 2 < length arr"
  shows "sample (movedPositions arr i v) i = vadd (sample arr i) v"
  using assms by (simp add: movedPositions_def Let_def sample_def vadd_def)

lemma movedPositions_other:
  assumes "j \<noteq> i"
  shows "sample (movedPositions arr i v) j = sample arr j"
  unfolding movedPositions_def Let_def
  by (simp only: sample_update_other [OF assms])

lemma copiedPositions_same:
  assumes "a < i" and "i * 3 + 2 < length arr"
  shows "sample (copiedPositions arr a i) a = sample arr i"
proof -
  have ne: "a \<noteq> i" using assms by simp
  have lt: "a * 3 < length arr" "a * 3 + 1 < length arr" "a * 3 + 2 < length arr"
    using assms by simp_all
  show ?thesis
    using lt stride3_neq [OF ne] stride3_neq [OF ne [symmetric]]
    by (simp add: copiedPositions_def Let_def sample_def)
qed

lemma copiedPositions_other:
  assumes "j \<noteq> a"
  shows "sample (copiedPositions arr a i) j = sample arr j"
  unfolding copiedPositions_def Let_def
  by (simp only: sample_update_other [OF assms])


lemma copied_moved_same:
  assumes "a < i" and "i * 3 + 2 < length arr"
  shows "sample (copiedPositions (movedPositions arr i w) a i) a = vadd (sample arr i) w"
proof -
  have "i * 3 + 2 < length (movedPositions arr i w)"
    using assms(2) by (simp add: movedPositions_length)
  with assms(1) have "sample (copiedPositions (movedPositions arr i w) a i) a
      = sample (movedPositions arr i w) i"
    by (rule copiedPositions_same)
  also have "\<dots> = vadd (sample arr i) w"
    using assms(2) by (rule movedPositions_same)
  finally show ?thesis .
qed

lemma agedSlot_slot:
  assumes "velocities s i = Some v"
  shows "agedSlot d (slot s i)
     = (sparkLives s ! i - d, sizes s ! i * 0.98,
        vadd (sample (positions s) i) (Vector3 (vx v) (vy v - 0.001) (vz v)),
        Some (Vector3 (vx v) (vy v - 0.001) (vz v)))"
  using assms by (simp add: agedSlot_def slot_def)

lemma sparkStep_alive_slots:
  assumes v: "velocities s i = Some v"
    and alive: "0 < sparkLives s ! i - lifeDecrement rnd n"
    and rng: "i * 3 + 2 < length (positions s)" "i < length (sizes s)" "i < length (sparkLives s)"
    and ai: "a \<le> i"
  shows "\<exists>s'. sparkStep rnd i (n, a, s) = Inr (n + 1, a + 1, s')
          \<and> slot s' a = agedSlot (lifeDecrement rnd n) (slot s i)
          \<and> (\<forall>j. j \<noteq> a \<and> j \<noteq> i \<longrightarrow> slot s' j = slot s j)"
proof (cases "a = i")
  case True
  show ?thesis
    using v alive rng True
    by (simp add: sparkStep_def Let_def agedSlot_def slot_def
        movedPositions_same movedPositions_other)
next
  case False
  with ai have lt: "a < i" by simp
  have ne: "i \<noteq> a" using False by simp
  have r2: "i * 3 + 2 < length (movedPositions (positions s) i (Vector3 (vx v) (vy v - 0.001) (vz v)))"
    using rng by (simp add: movedPositions_length)
  show ?thesis
    using v alive rng ne lt
    by (simp add: sparkStep_def Let_def agedSlot_def slot_def
        copied_moved_same copiedPositions_other
        movedPositions_same movedPositions_other)
qed


lemma sparkLoop_snoc:
  "sparkLoop rnd (js @ [i]) st =
     (case sparkLoop rnd js st of Inl e \<Rightarrow> Inl e | Inr st1 \<Rightarrow> sparkStep rnd i st1)"
proof (induction js arbitrary: st)
  case Nil
  show ?case by (simp split: sum.splits)
next
  case (Cons j js)
  show ?case by (simp add: Cons.IH split: sum.splits)
qed

lemma survivors_Suc:
  "survivors rnd n s (Suc k) =
     (if 0 < sparkLives s ! k - lifeDecrement rnd (n + k)
      then survivors rnd n s k @ [k] else survivors rnd n s k)"
  by (simp add: survivors_def)

lemma survivors_length_le: "length (survivors rnd n s k) \<le> k"
proof -
  have "length (survivors rnd n s k) \<le> length [0..<k]"
    unfolding survivors_def by (rule length_filter_le)
  then show ?thesis by simp
qed

lemma sparkLoop_compacts:
  assumes wf: "spark_wf s0" and k: "k \<le> activeParticles s0"
  shows "\<exists>s. sparkLoop rnd [0..<k] (n0, 0, s0)
               = Inr (n0 + k, length (survivors rnd n0 s0 k), s)
     \<and> (\<forall>j < length (survivors rnd n0 s0 k).
           slot s j = agedSlot (lifeDecrement rnd (n0 + survivors rnd n0 s0 k ! j))
                        (slot s0 (survivors rnd n0 s0 k ! j)))
     \<and> (\<forall>i \<ge> k. slot s i = slot s0 i)
     \<and> spark_frame s0 s"
  using k
proof (induction k)
  case 0
  show ?case by (simp add: survivors_def spark_frame_refl)
next
  case (Suc k)
  define sv where "sv = survivors rnd n0 s0 k"
  define a where "a = length sv"
  from Suc.prems have kle: "k \<le> activeParticles s0" and klt: "k < activeParticles s0"
    by simp_all
  from Suc.IH [OF kle] obtain s where
    lp: "sparkLoop rnd [0..<k] (n0, 0, s0) = Inr (n0 + k, a, s)"
    and pre: "\<forall>j < a. slot s j = agedSlot (lifeDecrement rnd (n0 + sv ! j)) (slot s0 (sv ! j))"
    and suf: "\<forall>i \<ge> k. slot s i = slot s0 i"
    and fr: "spark_frame s0 s"
    unfolding sv_def a_def by blast
  have ak: "a \<le> k" unfolding a_def sv_def by (rule survivors_length_le)
  have lens: "length (positions s) = maxLife s0 * 3 * 3" "length (sizes s) = maxLife s0 * 3"
    "length (sparkLives s) = maxLife s0 * 3"
    using wf fr by (simp_all add: spark_wf_def spark_frame_def)
  have cap: "k < maxLife s0 * 3" using klt wf by (simp add: spark_wf_def)
  have rng: "k * 3 + 2 < length (positions s)" "k < length (sizes s)" "k < length (sparkLives s)"
    using cap lens by simp_all
  have sk: "slot s k = slot s0 k" using suf by simp
  then have lk: "sparkLives s ! k = sparkLives s0 ! k" and vk: "velocities s k = velocities s0 k"
    by (simp_all add: slot_def)
  have "velocities s0 k \<noteq> None" using wf klt by (simp add: spark_wf_def)
  then obtain v where v: "velocities s k = Some v" using vk by auto
  have step: "sparkLoop rnd [0..<Suc k] (n0, 0, s0) = sparkStep rnd k (n0 + k, a, s)"
    using lp by (simp add: sparkLoop_snoc)
  from v have vn: "velocities s k \<noteq> None" by simp
  from sparkStep_frame [OF vn, of rnd "n0 + k" a]
  obtain a1 s1 where st1: "sparkStep rnd k (n0 + k, a, s) = Inr (n0 + k + 1, a1, s1)"
    and f1: "spark_frame s s1" by blast
  have fr1: "spark_frame s0 s1" using fr f1 by (rule spark_frame_trans)
  show ?case
  proof (cases "0 < sparkLives s0 ! k - lifeDecrement rnd (n0 + k)")
    case True
    then have sv1: "survivors rnd n0 s0 (Suc k) = sv @ [k]"
      by (simp add: survivors_Suc sv_def)
    have alive: "0 < sparkLives s ! k - lifeDecrement rnd (n0 + k)"
      using True lk by simp
    from sparkStep_alive_slots [OF v alive rng ak]
    obtain s' where st: "sparkStep rnd k (n0 + k, a, s) = Inr (n0 + k + 1, a + 1, s')"
      and sa: "slot s' a = agedSlot (lifeDecrement rnd (n0 + k)) (slot s k)"
      and so: "\<forall>j. j \<noteq> a \<and> j \<noteq> k \<longrightarrow> slot s' j = slot s j"
      by blast
    from st st1 have eq: "s1 = s'" by simp
    have p1: "\<forall>j < length (sv @ [k]).
           slot s' j = agedSlot (lifeDecrement rnd (n0 + (sv @ [k]) ! j)) (slot s0 ((sv @ [k]) ! j))"
    proof (intro allI impI)
      fix j assume "j < length (sv @ [k])"
      then have "j < a \<or> j = a" by (auto simp add: a_def)
      then show "slot s' j = agedSlot (lifeDecrement rnd (n0 + (sv @ [k]) ! j))
                   (slot s0 ((sv @ [k]) ! j))"
      proof
        assume ja: "j < a"
        then have "j \<noteq> a \<and> j \<noteq> k" using ak by simp
        then have "slot s' j = slot s j" using so by blast
        moreover have "(sv @ [k]) ! j = sv ! j" using ja by (simp add: a_def nth_append)
        ultimately show ?thesis using pre ja by simp
      next
        assume ja: "j = a"
        then have "(sv @ [k]) ! j = k" by (simp add: a_def)
        then show ?thesis using sa sk ja by simp
      qed
    qed
    have p2: "\<forall>i \<ge> Suc k. slot s' i = slot s0 i"
    proof (intro allI impI)
      fix i assume "Suc k \<le> i"
      then have "i \<noteq> a \<and> i \<noteq> k" and "k \<le> i" using ak by simp_all
      then show "slot s' i = slot s0 i" using so suf by simp
    qed
    have "sparkLoop rnd [0..<Suc k] (n0, 0, s0) = Inr (n0 + Suc k, length (sv @ [k]), s')"
      using step st by (simp add: a_def)
    with p1 p2 fr1 eq show ?thesis unfolding sv1 by blast
  next
    case False
    then have sv1: "survivors rnd n0 s0 (Suc k) = sv"
      by (simp add: survivors_Suc sv_def)
    have dead: "\<not> 0 < (sparkLives s)[k := sparkLives s ! k - lifeDecrement rnd (n0 + k)] ! k"
      using False lk rng by simp
    define s' where "s' = s\<lparr>sparkLives := (sparkLives s)[k := sparkLives s ! k - lifeDecrement rnd (n0 + k)]\<rparr>"
    have st: "sparkStep rnd k (n0 + k, a, s) = Inr (n0 + k + 1, a, s')"
      unfolding s'_def using dead by (rule sparkStep_dead)
    from st st1 have eq: "s1 = s'" by simp
    have so: "\<forall>j. j \<noteq> k \<longrightarrow> slot s' j = slot s j"
      by (simp add: s'_def sparkStep_dead_slot)
    have p1: "\<forall>j < length sv.
           slot s' j = agedSlot (lifeDecrement rnd (n0 + sv ! j)) (slot s0 (sv ! j))"
    proof (intro allI impI)
      fix j assume ja: "j < length sv"
      then have "j \<noteq> k" using ak by (simp add: a_def)
      then have "slot s' j = slot s j" using so by blast
      then show "slot s' j = agedSlot (lifeDecrement rnd (n0 + sv ! j)) (slot s0 (sv ! j))"
        using pre ja by (simp add: a_def)
    qed
    have p2: "\<forall>i \<ge> Suc k. slot s' i = slot s0 i"
    proof (intro allI impI)
      fix i assume "Suc k \<le> i"
      then have "i \<noteq> k" and "k \<le> i" by simp_all
      then show "slot s' i = slot s0 i" using so suf by simp
    qed
    have "sparkLoop rnd [0..<Suc k] (n0, 0, s0) = Inr (n0 + Suc k, length sv, s')"
      using step st by (simp add: a_def)
    with p1 p2 fr1 eq show ?thesis unfolding sv1 by blast
  qed
qed
lemma slot_more:
  "slot (s\<lparr>activeParticles := a, drawRange := d\<rparr>) j = slot s j"
  by (simp add: slot_def)

lemma WeldingSpark_update_slots:
  assumes "spark_wf s"
  shows "\<exists>n' s'. WeldingSpark_update ps rnd n s = Inr (n', s')
     \<and> activeParticles s' = length (updateSurvivors ps rnd n s)
     \<and> drawRange s' = (0, activeParticles s')
     \<and> (\<forall>j < length (updateSurvivors ps rnd n s).
           slot s' j
             = agedSlot (lifeDecrement rnd
                  (fst (WeldingSpark_advance ps rnd n s) + updateSurvivors ps rnd n s ! j))
                 (slot (snd (WeldingSpark_advance ps rnd n s)) (updateSurvivors ps rnd n s ! j)))"
proof -
  define st3 where "st3 = WeldingSpark_advance ps rnd n s"
  define sv where "sv = survivors rnd (fst st3) (snd st3) (activeParticles (snd st3))"
  have w3: "spark_wf (snd st3)"
    using WeldingSpark_advance_wf [OF assms, of ps rnd n] by (simp add: st3_def)
  from sparkLoop_compacts [OF w3 le_refl, of rnd "fst st3"]
  obtain s4 where lp: "sparkLoop rnd [0..<activeParticles (snd st3)] (fst st3, 0, snd st3)
        = Inr (fst st3 + activeParticles (snd st3), length sv, s4)"
    and pre: "\<forall>j < length sv. slot s4 j
        = agedSlot (lifeDecrement rnd (fst st3 + sv ! j)) (slot (snd st3) (sv ! j))"
    unfolding sv_def by blast
  define s5 where "s5 = s4\<lparr>activeParticles := length sv, drawRange := (0, length sv)\<rparr>"
  have upd: "WeldingSpark_update ps rnd n s = Inr (fst st3 + activeParticles (snd st3), s5)"
    using lp by (simp add: WeldingSpark_update_def Let_def st3_def [symmetric] s5_def)
  have a5: "activeParticles s5 = length sv" and d5: "drawRange s5 = (0, activeParticles s5)"
    by (simp_all add: s5_def)
  have sl: "\<forall>j < length sv. slot s5 j
        = agedSlot (lifeDecrement rnd (fst st3 + sv ! j)) (slot (snd st3) (sv ! j))"
    using pre by (simp add: s5_def slot_more)
  have usv: "updateSurvivors ps rnd n s = sv"
    by (simp add: updateSurvivors_def sv_def st3_def)
  from upd a5 d5 sl show ?thesis
    unfolding usv st3_def [symmetric] by blast
qed

lemma survivors_set:
  "set (survivors rnd n s k) = {i. i < k \<and> 0 < sparkLives s ! i - lifeDecrement rnd (n + i)}"
  by (auto simp add: survivors_def)

lemma survivors_sorted: "sorted_wrt (<) (survivors rnd n s k)"
  unfolding survivors_def by (rule sorted_wrt_filter) simp

lemma agedSlot_life: "fst (agedSlot d sl) = fst sl - d"
  by (simp add: agedSlot_def split: prod.splits)

lemma slot_life: "fst (slot s j) = sparkLives s ! j"
  by (simp add: slot_def)

lemma spark_three_wf: "spark_wf spark_three"
  by (simp add: spark_wf_def spark_three_def)

lemma spark_three_advance: "WeldingSpark_advance default_params (\<lambda>n. 1 / 2) 0 spark_three
   = (1, spark_three\<lparr>speed := 0.006, currentT := 0.506\<rparr>)"
  by (simp add: WeldingSpark_advance_def Let_def spark_three_def default_params_def)

lemma upt_three: "[0..<3] = [0, 1, 2]"
  by (simp add: upt_rec)

lemma spark_three_survivors: "updateSurvivors default_params (\<lambda>n. 1 / 2) 0 spark_three = [1, 2]"
  by (simp add: updateSurvivors_def spark_three_advance survivors_def lifeDecrement_def)
     (simp add: spark_three_def upt_three)

lemma spark_three_slots:
  "agedSlot (lifeDecrement (\<lambda>n. 1 / 2) k) (slot (spark_three\<lparr>speed := 0.006, currentT := 0.506\<rparr>) 1)
     = (0.46, 1.96, Vector3 2 0 0, Some (Vector3 0 0 0))"
  "agedSlot (lifeDecrement (\<lambda>n. 1 / 2) k) (slot (spark_three\<lparr>speed := 0.006, currentT := 0.506\<rparr>) 2)
     = (0.86, 2.94, Vector3 3 0 0, Some (Vector3 0 0 0))"
  by (simp_all add: agedSlot_def slot_def lifeDecrement_def spark_three_def sample_def vadd_def)


text \<open>
  C5, as the code has it. The update of a welding spark in a well-formed state returns
  without an error; the sparks that stay alive are kept in their order (each is copied
  down to the next free index, and no slot is swapped): the slot \<open>j\<close> of the result
  holds the aged data of the \<open>j\<close>-th survivor, the survivors being the indices of the
  live sparks whose life stays positive, in increasing order. So the live sparks fill
  the prefix of length activeParticles of the pool arrays, every life there is positive,
  and the draw range is exactly that prefix.
\<close>

theorem WeldingSpark_update_compaction:
  assumes "spark_wf s"
  shows "\<exists>n' s'. WeldingSpark_update ps rnd n s = Inr (n', s')
     \<and> activeParticles s' = length (updateSurvivors ps rnd n s)
     \<and> drawRange s' = (0, activeParticles s')
     \<and> (\<forall>j < activeParticles s'.
           slot s' j
             = agedSlot (lifeDecrement rnd
                  (fst (WeldingSpark_advance ps rnd n s) + updateSurvivors ps rnd n s ! j))
                 (slot (snd (WeldingSpark_advance ps rnd n s)) (updateSurvivors ps rnd n s ! j))
           \<and> 0 < sparkLives s' ! j)
     \<and> sorted_wrt (<) (updateSurvivors ps rnd n s)
     \<and> set (updateSurvivors ps rnd n s)
         = {i. i < activeParticles (snd (WeldingSpark_advance ps rnd n s))
              \<and> 0 < sparkLives (snd (WeldingSpark_advance ps rnd n s)) ! i
                    - lifeDecrement rnd (fst (WeldingSpark_advance ps rnd n s) + i)}"
proof -
  define n3 where "n3 = fst (WeldingSpark_advance ps rnd n s)"
  define s3 where "s3 = snd (WeldingSpark_advance ps rnd n s)"
  define sv where "sv = updateSurvivors ps rnd n s"
  have svd: "sv = survivors rnd n3 s3 (activeParticles s3)"
    by (simp add: sv_def updateSurvivors_def n3_def s3_def)
  from WeldingSpark_update_slots [OF assms, of ps rnd n]
  obtain n' s' where upd: "WeldingSpark_update ps rnd n s = Inr (n', s')"
    and act: "activeParticles s' = length sv"
    and dr: "drawRange s' = (0, activeParticles s')"
    and sl: "\<forall>j < length sv. slot s' j = agedSlot (lifeDecrement rnd (n3 + sv ! j)) (slot s3 (sv ! j))"
    unfolding sv_def n3_def s3_def by blast
  have st: "set sv = {i. i < activeParticles s3 \<and> 0 < sparkLives s3 ! i - lifeDecrement rnd (n3 + i)}"
    unfolding svd by (rule survivors_set)
  have so: "sorted_wrt (<) sv" unfolding svd by (rule survivors_sorted)
  have live: "\<forall>j < activeParticles s'.
      slot s' j = agedSlot (lifeDecrement rnd (n3 + sv ! j)) (slot s3 (sv ! j))
      \<and> 0 < sparkLives s' ! j"
  proof (intro allI impI)
    fix j assume "j < activeParticles s'"
    then have j: "j < length sv" using act by simp
    then have e: "slot s' j = agedSlot (lifeDecrement rnd (n3 + sv ! j)) (slot s3 (sv ! j))"
      using sl by simp
    have "sv ! j \<in> set sv" using j by simp
    then have "0 < sparkLives s3 ! (sv ! j) - lifeDecrement rnd (n3 + sv ! j)"
      unfolding st by simp
    moreover have "sparkLives s' ! j = sparkLives s3 ! (sv ! j) - lifeDecrement rnd (n3 + sv ! j)"
      using arg_cong [OF e, of fst] by (simp add: agedSlot_life slot_life)
    ultimately show "slot s' j = agedSlot (lifeDecrement rnd (n3 + sv ! j)) (slot s3 (sv ! j))
      \<and> 0 < sparkLives s' ! j"
      using e by simp
  qed
  from upd act dr live so st show ?thesis
    unfolding sv_def n3_def s3_def by blast
qed

theorem WeldingSpark_update_compaction_witness:
  "spark_wf spark_three
   \<and> (\<exists>n' s'. WeldingSpark_update default_params (\<lambda>n. 1 / 2) 0 spark_three = Inr (n', s')
        \<and> activeParticles s' = 2 \<and> drawRange s' = (0, 2)
        \<and> slot s' 0 = (0.46, 1.96, Vector3 2 0 0, Some (Vector3 0 0 0))
        \<and> slot s' 1 = (0.86, 2.94, Vector3 3 0 0, Some (Vector3 0 0 0)))"
proof -
  from WeldingSpark_update_compaction [OF spark_three_wf, of default_params "\<lambda>n. 1 / 2" 0]
  obtain n' s' where upd: "WeldingSpark_update default_params (\<lambda>n. 1 / 2) 0 spark_three = Inr (n', s')"
    and act: "activeParticles s' = 2" and dr: "drawRange s' = (0, activeParticles s')"
    and sl: "\<forall>j < activeParticles s'. slot s' j
       = agedSlot (lifeDecrement (\<lambda>n. 1 / 2) (1 + [1, 2] ! j))
           (slot (spark_three\<lparr>speed := 0.006, currentT := 0.506\<rparr>) ([1, 2] ! j))
       \<and> 0 < sparkLives s' ! j"
    unfolding spark_three_survivors spark_three_advance by auto
  have s0: "slot s' 0 = (0.46, 1.96, Vector3 2 0 0, Some (Vector3 0 0 0))"
    using sl act spark_three_slots(1) by simp
  have s1: "slot s' 1 = (0.86, 2.94, Vector3 3 0 0, Some (Vector3 0 0 0))"
    using sl act spark_three_slots(2) by simp
  from spark_three_wf upd act dr s0 s1 show ?thesis by auto
qed

text \<open>
  The claim as the specification words it fails: with three live sparks of which the
  first expires, the freed slot 0 receives the spark of slot 1 and not the last live one,
  so the order of the survivors is kept, where the swap would reverse it.
\<close>

theorem WeldingSpark_update_order_counterexample:
  "\<not> isl (WeldingSpark_update default_params (\<lambda>n. 1 / 2) 0 spark_three)
   \<and> take 3 (sparkLives (snd (WeldingSpark_advance default_params (\<lambda>n. 1 / 2) 0 spark_three)))
       = [0.03, 0.5, 0.9]
   \<and> lifeDecrement (\<lambda>n. 1 / 2) 1 = 0.04
   \<and> activeParticles (snd (projr (WeldingSpark_update default_params (\<lambda>n. 1 / 2) 0 spark_three))) = 2
   \<and> sparkLives (snd (projr (WeldingSpark_update default_params (\<lambda>n. 1 / 2) 0 spark_three))) ! 0 = 0.46
   \<and> sparkLives (snd (projr (WeldingSpark_update default_params (\<lambda>n. 1 / 2) 0 spark_three))) ! 1 = 0.86
   \<and> spec_swap_compact [0.03 - 0.04, 0.5 - 0.04, 0.9 - 0.04] = [0.86, 0.46]
   \<and> sparkLives (snd (projr (WeldingSpark_update default_params (\<lambda>n. 1 / 2) 0 spark_three))) ! 0
       \<noteq> spec_swap_compact [0.03 - 0.04, 0.5 - 0.04, 0.9 - 0.04] ! 0"
proof -
  from WeldingSpark_update_slots [OF spark_three_wf, of default_params "\<lambda>n. 1 / 2" 0]
  obtain n' s' where upd: "WeldingSpark_update default_params (\<lambda>n. 1 / 2) 0 spark_three = Inr (n', s')"
    and act: "activeParticles s' = 2"
    and sl: "\<forall>j < 2. slot s' j
       = agedSlot (lifeDecrement (\<lambda>n. 1 / 2) (1 + [1, 2] ! j))
           (slot (spark_three\<lparr>speed := 0.006, currentT := 0.506\<rparr>) ([1, 2] ! j))"
    unfolding spark_three_survivors spark_three_advance by auto
  have s0: "slot s' 0 = (0.46, 1.96, Vector3 2 0 0, Some (Vector3 0 0 0))"
    using sl spark_three_slots(1) by simp
  have s1: "slot s' 1 = (0.86, 2.94, Vector3 3 0 0, Some (Vector3 0 0 0))"
    using sl spark_three_slots(2) by simp
  have l0: "sparkLives s' ! 0 = 0.46" using arg_cong [OF s0, of fst] by (simp add: slot_life)
  have l1: "sparkLives s' ! 1 = 0.86" using arg_cong [OF s1, of fst] by (simp add: slot_life)
  have t: "take 3 (sparkLives (snd (WeldingSpark_advance default_params (\<lambda>n. 1 / 2) 0 spark_three)))
       = [0.03, 0.5, 0.9]"
    by (simp add: spark_three_advance) (simp add: spark_three_def)
  have d: "lifeDecrement (\<lambda>n. 1 / 2) 1 = 0.04" by (simp add: lifeDecrement_def)
  have sp: "spec_swap_compact [0.03 - 0.04, 0.5 - 0.04, 0.9 - 0.04] = [0.86, 0.46]" by simp
  from upd act l0 l1 t d sp show ?thesis by simp
qed

section \<open>The lifecycle alpha the managers set\<close>

lemma GlowParticle_update_fields:
  "baseSpeedRandomness (snd (GlowParticle_update ps rnd n p)) = baseSpeedRandomness p"
  "speed (snd (GlowParticle_update ps rnd n p)) = glow_speedFactor (glow ps) * baseSpeedRandomness p"
  "path (snd (GlowParticle_update ps rnd n p)) = path p"
  "lifecycleOffset (snd (GlowParticle_update ps rnd n p)) = lifecycleOffset p"
  by (simp_all add: GlowParticle_update_def Let_def split: prod.splits if_splits)



lemma Comet_update_fields:
  "baseSpeedRandomness (snd (Comet_update ps rnd n c)) = baseSpeedRandomness c"
  "speed (snd (Comet_update ps rnd n c)) = comet_speedFactor (comet ps) * baseSpeedRandomness c"
  "path (snd (Comet_update ps rnd n c)) = path c"
  "lifecycleOffset (snd (Comet_update ps rnd n c)) = lifecycleOffset c"
  "headMaterial (snd (Comet_update ps rnd n c)) = headMaterial c"
  "tailMaterial (snd (Comet_update ps rnd n c)) = tailMaterial c"
  by (simp_all add: Comet_update_def Let_def split: prod.splits if_splits)

















section \<open>The speed multiplier\<close>

lemma base_range:
  assumes "0 \<le> r" and "r < (1::real)"
  shows "0.5 \<le> 0.5 + r * 1" and "0.5 + r * 1 < 1.5" and "0.5 \<le> 0.5 + r * 1.5" and "0.5 + r * 1.5 < 2"
  using assms by simp_all

lemma GlowParticle_new_base:
  "baseSpeedRandomness (snd (GlowParticle_new ps rnd n pth opts)) = 0.5 + rnd (n + 1) * 1"
  by (simp add: GlowParticle_new_def Let_def)

lemma Comet_new_base:
  "baseSpeedRandomness (snd (Comet_new ps rnd n pth opts)) = 0.5 + rnd (n + 1) * 1"
  by (simp add: Comet_new_def Let_def)

lemma WeldingSpark_new_base:
  "baseSpeedRandomness (snd (WeldingSpark_new ps rnd n pth opts)) = 0.5 + rnd (n + 1) * 1.5"
  by (simp add: WeldingSpark_new_def Let_def emitSparks_fields)


text \<open>
  C6, as the code has it. The multiplier drawn by the constructor is \<open>0.5 + r\<close> for a
  glow particle and for a comet, in [0.5, 1.5), and \<open>0.5 + 1.5 r\<close> for a welding
  spark, in [0.5, 2), for the draw \<open>r\<close> in [0,1). No method changes it: update (and
  emitSparks) return it as it was, and the speed after every tick is the speed factor of
  the configuration times the multiplier.
\<close>

theorem speed_multiplier_range:
  assumes "random_ok rnd"
  shows "baseSpeedRandomness (snd (GlowParticle_new ps rnd n pth gopts)) = 0.5 + rnd (n + 1) * 1
     \<and> 0.5 \<le> baseSpeedRandomness (snd (GlowParticle_new ps rnd n pth gopts))
     \<and> baseSpeedRandomness (snd (GlowParticle_new ps rnd n pth gopts)) < 1.5
     \<and> baseSpeedRandomness (snd (Comet_new ps rnd n pth copts)) = 0.5 + rnd (n + 1) * 1
     \<and> 0.5 \<le> baseSpeedRandomness (snd (Comet_new ps rnd n pth copts))
     \<and> baseSpeedRandomness (snd (Comet_new ps rnd n pth copts)) < 1.5
     \<and> baseSpeedRandomness (snd (WeldingSpark_new ps rnd n pth sopts)) = 0.5 + rnd (n + 1) * 1.5
     \<and> 0.5 \<le> baseSpeedRandomness (snd (WeldingSpark_new ps rnd n pth sopts))
     \<and> baseSpeedRandomness (snd (WeldingSpark_new ps rnd n pth sopts)) < 2
     \<and> baseSpeedRandomness (snd (GlowParticle_update ps1 rnd1 m g)) = baseSpeedRandomness g
     \<and> speed (snd (GlowParticle_update ps1 rnd1 m g))
          = glow_speedFactor (glow ps1) * baseSpeedRandomness g
     \<and> baseSpeedRandomness (snd (Comet_update ps1 rnd1 m c)) = baseSpeedRandomness c
     \<and> speed (snd (Comet_update ps1 rnd1 m c))
          = comet_speedFactor (comet ps1) * baseSpeedRandomness c
     \<and> baseSpeedRandomness (snd (emitSparks ps1 rnd1 m s)) = baseSpeedRandomness s
     \<and> (spark_wf s \<longrightarrow>
          (\<exists>n1 s1. WeldingSpark_update ps1 rnd1 m s = Inr (n1, s1)
             \<and> baseSpeedRandomness s1 = baseSpeedRandomness s
             \<and> speed s1 = spark_speedFactor (weldingSpark ps1) * baseSpeedRandomness s))"
proof -
  have r: "0 \<le> rnd (n + 1)" "rnd (n + 1) < 1"
    using assms by (simp_all add: random_ok_def)
  note b = base_range [OF r]
  have G: "baseSpeedRandomness (snd (GlowParticle_new ps rnd n pth gopts)) = 0.5 + rnd (n + 1) * 1"
    by (rule GlowParticle_new_base)
  have C: "baseSpeedRandomness (snd (Comet_new ps rnd n pth copts)) = 0.5 + rnd (n + 1) * 1"
    by (rule Comet_new_base)
  have W: "baseSpeedRandomness (snd (WeldingSpark_new ps rnd n pth sopts)) = 0.5 + rnd (n + 1) * 1.5"
    by (rule WeldingSpark_new_base)
  have U: "spark_wf s \<longrightarrow>
          (\<exists>n1 s1. WeldingSpark_update ps1 rnd1 m s = Inr (n1, s1)
             \<and> baseSpeedRandomness s1 = baseSpeedRandomness s
             \<and> speed s1 = spark_speedFactor (weldingSpark ps1) * baseSpeedRandomness s)"
    using WeldingSpark_update_wf [of s ps1 rnd1 m] by blast
  from b show ?thesis
    unfolding G C W
    using U by (simp add: GlowParticle_update_fields Comet_update_fields emitSparks_fields)
qed

theorem speed_multiplier_range_witness:
  "random_ok (\<lambda>n. 3 / 4)
   \<and> baseSpeedRandomness (snd (GlowParticle_new default_params (\<lambda>n. 3 / 4) 0 (line_path True)
        glow_options_example)) = 1.25
   \<and> baseSpeedRandomness (snd (WeldingSpark_new default_params (\<lambda>n. 3 / 4) 0 (line_path True)
        spark_options_example)) = 1.625
   \<and> baseSpeedRandomness (snd (WeldingSpark_new default_params (\<lambda>n. 3 / 4) 0 (line_path True)
        spark_options_example)) < 2
   \<and> spark_wf spark_three
   \<and> (\<exists>n1 s1. WeldingSpark_update default_params (\<lambda>n. 3 / 4) 0 spark_three = Inr (n1, s1)
        \<and> baseSpeedRandomness s1 = 1 \<and> speed s1 = 0.006)
   \<and> speed (snd (GlowParticle_update default_params (\<lambda>n. 3 / 4) 0 glow_example)) = 0.0007"
proof -
  have h: "random_ok (\<lambda>n. 3 / 4)" by (simp add: random_ok_def)
  have sw: "spark_wf spark_three" by (simp add: spark_wf_def spark_three_def)
  have v: "baseSpeedRandomness spark_three = 1" "baseSpeedRandomness glow_example = 1"
    "spark_speedFactor (weldingSpark default_params) = 0.006"
    "glow_speedFactor (glow default_params) = 0.0007"
    by (simp_all add: spark_three_def glow_example_def default_params_def)
  from speed_multiplier_range [OF h, of default_params 0 "line_path True"
      glow_options_example
      comet_options_example spark_options_example default_params "\<lambda>n. 3 / 4" 0 glow_example
      comet_example spark_three]
    h sw
  show ?thesis unfolding v by simp
qed

text \<open>The claim as the specification words it fails for a welding spark: the draw 0.9
  gives the multiplier 1.85, above 1.5.\<close>

theorem WeldingSpark_multiplier_counterexample:
  "random_ok (\<lambda>n. 9 / 10)
   \<and> baseSpeedRandomness (snd (WeldingSpark_new default_params (\<lambda>n. 9 / 10) 0 (line_path True)
        spark_options_example)) = 1.85
   \<and> 1.5 < baseSpeedRandomness (snd (WeldingSpark_new default_params (\<lambda>n. 9 / 10) 0
        (line_path True) spark_options_example))"
  by (simp add: random_ok_def WeldingSpark_new_base)

end
